theory Spec2Isabelle
  imports Complex_Main
begin

section \<open>Python values, exceptions and effects\<close>

text \<open>
  The program is \<^verbatim>\<open>src/backend/app.py\<close>: a class \<^verbatim>\<open>SQLAgent\<close> with the methods
  \<^verbatim>\<open>_analyze_schema\<close>, \<^verbatim>\<open>generate_sql_query\<close>, \<^verbatim>\<open>execute_query\<close>,
  \<^verbatim>\<open>generate_insights\<close>, \<^verbatim>\<open>_format_schema_for_prompt\<close>, \<^verbatim>\<open>_summarize_data\<close>
  and the request handler \<^verbatim>\<open>ask_question\<close>.

  An exception is a value. \<open>py_exception\<close> stands for the instances of Python's
  \<^verbatim>\<open>Exception\<close>, which is what every \<^verbatim>\<open>except Exception as e\<close> of the source
  catches; \<open>exc_str e\<close> is \<^verbatim>\<open>str(e)\<close>.
\<close>

datatype py_exception = PyException (exc_class: string) (exc_str: string)

text \<open>
  A Python float is its sign and the exact magnitude of the double (a rational), or
  NaN, or an infinity. The sign is kept apart so that \<^verbatim>\<open>-0.0\<close> exists.
\<close>

datatype pyfloat = Finite (negative: bool) (magnitude: rat) | NaN | Inf bool

text \<open>The values sqlite3 and pandas hand to the program: None, int, float, str, bytes.\<close>

datatype scalar = SNone | SInt int | SFloat pyfloat | SStr string | SBytes string

text \<open>Python truthiness, as \<^verbatim>\<open>not x\<close> and \<^verbatim>\<open>if x\<close> read it.\<close>

fun float_truthy :: "pyfloat \<Rightarrow> bool" where
  "float_truthy (Finite s m) = (m \<noteq> 0)"
| "float_truthy NaN = True"
| "float_truthy (Inf s) = True"

fun truthy :: "scalar \<Rightarrow> bool" where
  "truthy SNone = False"
| "truthy (SInt i) = (i \<noteq> 0)"
| "truthy (SFloat f) = float_truthy f"
| "truthy (SStr s) = (s \<noteq> [])"
| "truthy (SBytes b) = (b \<noteq> [])"

text \<open>
  The parameters of \<^verbatim>\<open>openai.Completion.create\<close>. \<open>stop\<close> is \<open>None\<close> when the
  call passes no \<^verbatim>\<open>stop\<close> argument.
\<close>

record completion_request =
  engine :: string
  prompt :: string
  max_tokens :: nat
  temperature :: rat
  stop :: "string list option"

text \<open>
  What a run does to the outside is recorded in a \<open>world\<close>: the number of store
  connections that were opened and not closed, and the trace of what happened, oldest
  first. A \<open>Call\<close> event marks the entry into one of the four pipeline stages; the
  other events are the calls that leave the process.
\<close>

datatype component = GenerateSql | ExecuteQuery | SummarizeData | GenerateInsights

datatype event =
    Call component
  | Completion completion_request
  | Sql string
  | Print string

record world =
  open_conns :: nat
  trace :: "event list"

text \<open>
  A Python computation takes the world and returns either the exception it raised
  (\<open>Inl\<close>) or its value (\<open>Inr\<close>), with the world it left behind.
\<close>

type_synonym 'a py = "world \<Rightarrow> (py_exception + 'a) \<times> world"

definition ret :: "'a \<Rightarrow> 'a py" where
  "ret x = (\<lambda>w. (Inr x, w))"

definition raise :: "py_exception \<Rightarrow> 'a py" where
  "raise e = (\<lambda>w. (Inl e, w))"

definition bind :: "'a py \<Rightarrow> ('a \<Rightarrow> 'b py) \<Rightarrow> 'b py" where
  "bind m f = (\<lambda>w. case m w of (Inl e, w') \<Rightarrow> (Inl e, w') | (Inr x, w') \<Rightarrow> f x w')"

text \<open>\<^verbatim>\<open>try: m  except Exception as e: h(e)\<close>\<close>

definition try_except :: "'a py \<Rightarrow> (py_exception \<Rightarrow> 'a py) \<Rightarrow> 'a py" where
  "try_except m h = (\<lambda>w. case m w of (Inl e, w') \<Rightarrow> h e w' | (Inr x, w') \<Rightarrow> (Inr x, w'))"

definition emit :: "event \<Rightarrow> unit py" where
  "emit ev = (\<lambda>w. (Inr (), w\<lparr>trace := trace w @ [ev]\<rparr>))"

definition lift :: "py_exception + 'a \<Rightarrow> 'a py" where
  "lift r = (\<lambda>w. (r, w))"

section \<open>The store and pandas\<close>

text \<open>
  A pandas DataFrame as \<^verbatim>\<open>read_sql_query\<close> builds it: the column labels and the rows,
  each row holding one cell per column.
\<close>

record dataframe =
  df_columns :: "string list"
  df_rows :: "scalar list list"

definition rectangular :: "dataframe \<Rightarrow> bool" where
  "rectangular df = list_all (\<lambda>r. length r = length (df_columns df)) (df_rows df)"

text \<open>
  A Python dict keeps its keys in insertion order; storing under a key that is present
  replaces the value where it stands. \<open>dict_of\<close> is \<^verbatim>\<open>dict(pairs)\<close>.
\<close>

type_synonym ('k, 'v) dict = "('k \<times> 'v) list"

fun dict_set :: "('k, 'v) dict \<Rightarrow> 'k \<Rightarrow> 'v \<Rightarrow> ('k, 'v) dict" where
  "dict_set [] k v = [(k, v)]"
| "dict_set ((k', v') # d) k v = (if k' = k then (k', v) # d else (k', v') # dict_set d k v)"

definition dict_of :: "('k \<times> 'v) list \<Rightarrow> ('k, 'v) dict" where
  "dict_of kvs = foldl (\<lambda>d (k, v). dict_set d k v) [] kvs"

definition keys :: "('k, 'v) dict \<Rightarrow> 'k list" where
  "keys d = map fst d"

text \<open>
  \<^verbatim>\<open>df.to_dict('records')\<close>: one dict per row, \<^verbatim>\<open>dict(zip(columns, row))\<close>.
\<close>

definition to_dict_records :: "dataframe \<Rightarrow> (string, scalar) dict list" where
  "to_dict_records df = map (\<lambda>r. dict_of (zip (df_columns df) r)) (df_rows df)"

text \<open>
  The outside of the process at the time of a run. Each field is the outcome of one
  library call: \<open>Some e\<close> or \<open>Inl e\<close> when the call raises \<open>e\<close>.
  \<^item> \<open>db_connect\<close>: \<^verbatim>\<open>sqlite3.connect(self.db_path)\<close>;
  \<^item> \<open>db_execute sql\<close>: \<^verbatim>\<open>cursor.execute(sql)\<close> then \<^verbatim>\<open>cursor.fetchall()\<close>;
  \<^item> \<open>db_close\<close>: \<^verbatim>\<open>conn.close()\<close>;
  \<^item> \<open>read_sql_query sql\<close>: \<^verbatim>\<open>pd.read_sql_query(sql, conn)\<close>;
  \<^item> \<open>completion_create req\<close>: \<^verbatim>\<open>openai.Completion.create(...)\<close>, the texts of
    \<^verbatim>\<open>response.choices\<close>;
  \<^item> \<open>datetime_now\<close>: \<^verbatim>\<open>datetime.now().isoformat()\<close>.
\<close>

record env =
  db_connect :: "py_exception option"
  db_execute :: "string \<Rightarrow> py_exception + scalar list list"
  db_close :: "py_exception option"
  read_sql_query :: "string \<Rightarrow> py_exception + dataframe"
  completion_create :: "completion_request \<Rightarrow> py_exception + string list"
  datetime_now :: string

definition sqlite3_connect :: "env \<Rightarrow> unit py" where
  "sqlite3_connect ev = (\<lambda>w. case db_connect ev of
       Some e \<Rightarrow> (Inl e, w)
     | None \<Rightarrow> (Inr (), w\<lparr>open_conns := Suc (open_conns w)\<rparr>))"

definition conn_close :: "env \<Rightarrow> unit py" where
  "conn_close ev = (\<lambda>w. case db_close ev of
       Some e \<Rightarrow> (Inl e, w)
     | None \<Rightarrow> (Inr (), w\<lparr>open_conns := open_conns w - 1\<rparr>))"

definition pd_read_sql_query :: "env \<Rightarrow> string \<Rightarrow> dataframe py" where
  "pd_read_sql_query ev sql = bind (emit (Sql sql)) (\<lambda>_. lift (read_sql_query ev sql))"

text \<open>
  A DataFrame is rectangular by construction in pandas; \<open>frames_rectangular ev sql\<close> says
  so of the frame the store answers \<open>sql\<close> with, when it answers with one.
\<close>

definition frames_rectangular :: "env \<Rightarrow> string \<Rightarrow> bool" where
  "frames_rectangular ev sql =
     (case read_sql_query ev sql of Inl e \<Rightarrow> True | Inr df \<Rightarrow> rectangular df)"

section \<open>The Query Executor\<close>

record query_result =
  success :: bool
  data :: "(string, scalar) dict list"
  columns :: "string list"
  row_count :: nat
  error :: "string option"

text \<open>
  \<^verbatim>\<open>SQLAgent.execute_query\<close>. The dict of the source has the key \<^verbatim>\<open>'error'\<close> only in
  the \<^verbatim>\<open>except\<close> branch: \<open>error\<close> is \<open>None\<close> when the key is absent.
\<close>

definition execute_query :: "env \<Rightarrow> string \<Rightarrow> query_result py" where
  "execute_query ev sql_query =
     bind (emit (Call ExecuteQuery)) (\<lambda>_.
     try_except
       (bind (sqlite3_connect ev) (\<lambda>conn.
        bind (pd_read_sql_query ev sql_query) (\<lambda>df.
        bind (conn_close ev) (\<lambda>_.
        ret \<lparr>success = True,
             data = to_dict_records df,
             columns = df_columns df,
             row_count = length (df_rows df),
             error = None\<rparr>))))
       (\<lambda>e. ret \<lparr>success = False,
                  data = [],
                  columns = [],
                  row_count = 0,
                  error = Some (exc_str e)\<rparr>))"

section \<open>Text\<close>

text \<open>
  A string is the list of its code points; a \<open>char\<close> holds a code point below 256.
  \<open>py_isspace\<close> is \<^verbatim>\<open>str.isspace\<close> on those: the characters \<^verbatim>\<open>str.strip()\<close> removes.
\<close>

definition py_isspace :: "char \<Rightarrow> bool" where
  "py_isspace c =
     (let n = (of_char c :: nat)
      in (9 \<le> n \<and> n \<le> 13) \<or> (28 \<le> n \<and> n \<le> 32) \<or> n = 133 \<or> n = 160)"

definition strip :: "string \<Rightarrow> string" where
  "strip s = rev (dropWhile py_isspace (rev (dropWhile py_isspace s)))"

fun join :: "string \<Rightarrow> string list \<Rightarrow> string" where
  "join sep [] = []"
| "join sep [x] = x"
| "join sep (x # y # ys) = x @ sep @ join sep (y # ys)"

definition digit_char :: "nat \<Rightarrow> char" where
  "digit_char d = char_of (48 + d)"

fun show_nat :: "nat \<Rightarrow> string" where
  "show_nat n = (if n < 10 then [digit_char n] else show_nat (n div 10) @ [digit_char (n mod 10)])"

definition show_int :: "int \<Rightarrow> string" where
  "show_int i = (if i < 0 then CHR ''-'' # show_nat (nat (- i)) else show_nat (nat i))"

text \<open>
  The source writes \<^verbatim>\<open>\\n\<close> inside its string literals (lines 89, 161 to 186): an
  escaped backslash followed by the letter n, two characters, not a line break.
\<close>

definition backslash_n :: string where
  "backslash_n = [CHR 0x5C, CHR ''n'']"

text \<open>
  The format specification \<^verbatim>\<open>:.2f\<close>: fixed point with two digits after the point,
  rounded to nearest, ties to even, from the exact value of the float.
\<close>

definition round_half_even :: "rat \<Rightarrow> int" where
  "round_half_even x =
     (let f = \<lfloor>x\<rfloor>; d = x - of_int f
      in if d < 1 / 2 then f else if 1 / 2 < d then f + 1 else if even f then f else f + 1)"

definition fixed2 :: "nat \<Rightarrow> string" where
  "fixed2 h = show_nat (h div 100) @ CHR ''.'' # [digit_char (h mod 100 div 10), digit_char (h mod 10)]"

fun format_2f :: "pyfloat \<Rightarrow> string" where
  "format_2f (Finite s m) =
     (if s then [CHR ''-''] else []) @ fixed2 (nat (round_half_even (100 * \<bar>m\<bar>)))"
| "format_2f NaN = ''nan''"
| "format_2f (Inf s) = (if s then ''-inf'' else ''inf'')"

section \<open>The request\<close>

text \<open>What \<^verbatim>\<open>request.get_json()\<close> parses: a JSON value.\<close>

datatype json =
    JNull
  | JBool bool
  | JInt int
  | JFloat pyfloat
  | JStr string
  | JArr "json list"
  | JObj "(string \<times> json) list"

fun json_truthy :: "json \<Rightarrow> bool" where
  "json_truthy JNull = False"
| "json_truthy (JBool b) = b"
| "json_truthy (JInt i) = (i \<noteq> 0)"
| "json_truthy (JFloat f) = float_truthy f"
| "json_truthy (JStr s) = (s \<noteq> [])"
| "json_truthy (JArr xs) = (xs \<noteq> [])"
| "json_truthy (JObj kvs) = (kvs \<noteq> [])"

section \<open>Library functions the program calls\<close>

text \<open>
  The renderings and the pandas column operations the source calls are parameters of
  the model, one field each:
  \<^item> \<open>float_str\<close>: \<^verbatim>\<open>str(x)\<close> of a float; \<open>str_repr\<close>, \<open>bytes_repr\<close>: \<^verbatim>\<open>repr\<close> of a
    str and of a bytes object; \<open>json_str\<close>: \<^verbatim>\<open>str(x)\<close> of a parsed JSON value that
    is not a string;
  \<^item> \<open>number_dtype\<close>: whether pandas gives a column of these cells a number dtype
    (\<^verbatim>\<open>select_dtypes(include=['number'])\<close>);
  \<^item> \<open>series_min\<close>, \<open>series_max\<close>, \<open>series_mean\<close>: \<^verbatim>\<open>df[col].min()\<close>,
    \<^verbatim>\<open>df[col].max()\<close>, \<^verbatim>\<open>df[col].mean()\<close>.
\<close>

record pylib =
  float_str :: "pyfloat \<Rightarrow> string"
  str_repr :: "string \<Rightarrow> string"
  bytes_repr :: "string \<Rightarrow> string"
  json_str :: "json \<Rightarrow> string"
  number_dtype :: "scalar list \<Rightarrow> bool"
  series_min :: "scalar list \<Rightarrow> scalar"
  series_max :: "scalar list \<Rightarrow> scalar"
  series_mean :: "scalar list \<Rightarrow> pyfloat"

text \<open>\<^verbatim>\<open>str(x)\<close>, which is what \<^verbatim>\<open>{x}\<close> in an f-string writes, and \<^verbatim>\<open>repr(x)\<close>.\<close>

fun py_str :: "pylib \<Rightarrow> scalar \<Rightarrow> string" where
  "py_str lib SNone = ''None''"
| "py_str lib (SInt i) = show_int i"
| "py_str lib (SFloat f) = float_str lib f"
| "py_str lib (SStr s) = s"
| "py_str lib (SBytes b) = bytes_repr lib b"

fun py_repr :: "pylib \<Rightarrow> scalar \<Rightarrow> string" where
  "py_repr lib (SStr s) = str_repr lib s"
| "py_repr lib x = py_str lib x"

fun str_tuple :: "pylib \<Rightarrow> scalar list \<Rightarrow> string" where
  "str_tuple lib [] = ''()''"
| "str_tuple lib [x] = ''('' @ py_repr lib x @ '',)''"
| "str_tuple lib xs = ''('' @ join '', '' (map (py_repr lib) xs) @ '')''"

fun question_str :: "pylib \<Rightarrow> json \<Rightarrow> string" where
  "question_str lib (JStr s) = s"
| "question_str lib j = json_str lib j"

section \<open>The Schema Introspector\<close>

record column_info =
  col_name :: scalar
  col_type :: scalar
  nullable :: bool

record table_info =
  table_columns :: "column_info list"
  sample_data :: "scalar list list"

type_synonym schema = "(scalar, table_info) dict"

definition cursor_execute :: "env \<Rightarrow> string \<Rightarrow> scalar list list py" where
  "cursor_execute ev sql = bind (emit (Sql sql)) (\<lambda>_. lift (db_execute ev sql))"

text \<open>
  \<^verbatim>\<open>t[i]\<close> on a tuple or a list (\<open>kind\<close> says which): IndexError out of range.
\<close>

definition index :: "string \<Rightarrow> 'a list \<Rightarrow> nat \<Rightarrow> 'a py" where
  "index kind xs i =
     (if i < length xs then ret (xs ! i)
      else raise (PyException ''IndexError'' (kind @ '' index out of range'')))"

text \<open>A list comprehension whose element expression may raise.\<close>

fun map_py :: "('a \<Rightarrow> 'b py) \<Rightarrow> 'a list \<Rightarrow> 'b list py" where
  "map_py f [] = ret []"
| "map_py f (x # xs) = bind (f x) (\<lambda>y. bind (map_py f xs) (\<lambda>ys. ret (y # ys)))"

definition tables_sql :: string where
  "tables_sql = ''SELECT name FROM sqlite_master WHERE type='table';''"

definition table_info_sql :: "pylib \<Rightarrow> scalar \<Rightarrow> string" where
  "table_info_sql lib table = ''PRAGMA table_info('' @ py_str lib table @ '')''"

definition sample_sql :: "pylib \<Rightarrow> scalar \<Rightarrow> string" where
  "sample_sql lib table = ''SELECT * FROM '' @ py_str lib table @ '' LIMIT 5''"

text \<open>\<^verbatim>\<open>{'name': col[1], 'type': col[2], 'nullable': not col[3]}\<close>\<close>

definition column_of :: "scalar list \<Rightarrow> column_info py" where
  "column_of col =
     bind (index ''tuple'' col 1) (\<lambda>n.
     bind (index ''tuple'' col 2) (\<lambda>t.
     bind (index ''tuple'' col 3) (\<lambda>notnull.
     ret \<lparr>col_name = n, col_type = t, nullable = (\<not> truthy notnull)\<rparr>)))"

text \<open>The body of the loop \<^verbatim>\<open>for table in tables\<close>, up to the value stored.\<close>

definition analyze_table :: "pylib \<Rightarrow> env \<Rightarrow> scalar \<Rightarrow> table_info py" where
  "analyze_table lib ev table =
     bind (cursor_execute ev (table_info_sql lib table)) (\<lambda>cols.
     bind (cursor_execute ev (sample_sql lib table)) (\<lambda>sample.
     bind (map_py column_of cols) (\<lambda>infos.
     ret \<lparr>table_columns = infos,
          sample_data = (if sample \<noteq> [] then take 3 sample else [])\<rparr>)))"

fun analyze_tables :: "pylib \<Rightarrow> env \<Rightarrow> scalar list \<Rightarrow> schema \<Rightarrow> schema py" where
  "analyze_tables lib ev [] sch = ret sch"
| "analyze_tables lib ev (table # tables) sch =
     bind (analyze_table lib ev table) (\<lambda>info.
     analyze_tables lib ev tables (dict_set sch table info))"

text \<open>The \<^verbatim>\<open>try\<close> block of \<^verbatim>\<open>SQLAgent._analyze_schema\<close>, then the method.\<close>

definition analyze_schema_body :: "pylib \<Rightarrow> env \<Rightarrow> schema py" where
  "analyze_schema_body lib ev =
     bind (sqlite3_connect ev) (\<lambda>conn.
     bind (cursor_execute ev tables_sql) (\<lambda>rows.
     bind (map_py (\<lambda>row. index ''tuple'' row 0) rows) (\<lambda>tables.
     bind (analyze_tables lib ev tables []) (\<lambda>sch.
     bind (conn_close ev) (\<lambda>_.
     ret sch)))))"

definition analyze_schema :: "pylib \<Rightarrow> env \<Rightarrow> schema py" where
  "analyze_schema lib ev =
     try_except (analyze_schema_body lib ev)
       (\<lambda>e. bind (emit (Print (''Error analyzing schema: '' @ exc_str e))) (\<lambda>_. ret []))"

section \<open>The Prompt Composer\<close>

text \<open>\<^verbatim>\<open>SQLAgent._format_schema_for_prompt\<close>: two nested loops that append to a string.\<close>

definition format_column :: "pylib \<Rightarrow> string \<Rightarrow> column_info \<Rightarrow> string" where
  "format_column lib schema_text col =
     schema_text @ ''  - '' @ py_str lib (col_name col) @ '' ('' @ py_str lib (col_type col) @ '')''
       @ backslash_n"

definition format_table :: "pylib \<Rightarrow> string \<Rightarrow> scalar \<times> table_info \<Rightarrow> string" where
  "format_table lib schema_text item =
     (let table = fst item; info = snd item;
          t1 = schema_text @ backslash_n @ ''Table: '' @ py_str lib table @ backslash_n;
          t2 = foldl (format_column lib) t1 (table_columns info)
      in if sample_data info \<noteq> []
         then t2 @ ''  Sample data: '' @ str_tuple lib (hd (sample_data info)) @ backslash_n
         else t2)"

definition format_schema_for_prompt :: "pylib \<Rightarrow> schema \<Rightarrow> string" where
  "format_schema_for_prompt lib schema_info = foldl (format_table lib) [] schema_info"

section \<open>The Result Summarizer\<close>

text \<open>
  \<^verbatim>\<open>pd.DataFrame(data)\<close> of a list of dicts: the columns are the keys of all the dicts, in
  the order in which they are first seen; a row that lacks a key has NaN there.
\<close>

definition frame_columns :: "(string, scalar) dict list \<Rightarrow> string list" where
  "frame_columns rows = rev (remdups (rev (concat (map keys rows))))"

definition column_values :: "(string, scalar) dict list \<Rightarrow> string \<Rightarrow> scalar list" where
  "column_values rows col =
     map (\<lambda>row. case map_of row col of None \<Rightarrow> SFloat NaN | Some v \<Rightarrow> v) rows"

text \<open>\<^verbatim>\<open>df.select_dtypes(include=['number']).columns\<close>\<close>

definition numeric_columns :: "pylib \<Rightarrow> (string, scalar) dict list \<Rightarrow> string list" where
  "numeric_columns lib rows =
     filter (\<lambda>col. number_dtype lib (column_values rows col)) (frame_columns rows)"

text \<open>The body of the loop \<^verbatim>\<open>for col in numeric_cols[:3]\<close>.\<close>

definition summarize_column ::
  "pylib \<Rightarrow> (string, scalar) dict list \<Rightarrow> string \<Rightarrow> string \<Rightarrow> string" where
  "summarize_column lib rows summary col =
     summary @ col @ '': min='' @ py_str lib (series_min lib (column_values rows col))
       @ '', max='' @ py_str lib (series_max lib (column_values rows col))
       @ '', avg='' @ format_2f (series_mean lib (column_values rows col))
       @ backslash_n"

text \<open>
  \<^verbatim>\<open>SQLAgent._summarize_data\<close>. The second test \<^verbatim>\<open>if data:\<close> (line 176) stands after
  the return of the first and is always true.
\<close>

definition summarize_data :: "pylib \<Rightarrow> (string, scalar) dict list \<Rightarrow> string" where
  "summarize_data lib rows =
     (case rows of
        [] \<Rightarrow> ''No data returned''
      | row0 # _ \<Rightarrow>
         (let summary = ''Dataset contains '' @ show_nat (length rows) @ '' records'' @ backslash_n;
              cols = keys row0;
              summary = summary @ ''Columns: '' @ join '', '' cols @ backslash_n;
              numeric_cols = numeric_columns lib rows
          in if length numeric_cols > 0
             then foldl (summarize_column lib rows)
                    (summary @ backslash_n @ ''Numeric summaries:'' @ backslash_n)
                    (take 3 numeric_cols)
             else summary))"

section \<open>The Query Generator\<close>

definition sql_prompt :: "string \<Rightarrow> string \<Rightarrow> string" where
  "sql_prompt schema_context question_text =
     ''\<newline>'' @
     ''        You are an expert SQL analyst. Given the following database schema and a business question, \<newline>'' @
     ''        generate an appropriate SQL query.\<newline>'' @
     ''        \<newline>'' @
     ''        Database Schema:\<newline>'' @
     ''        '' @
     schema_context @
     ''\<newline>'' @
     ''        \<newline>'' @
     ''        Business Question: '' @
     question_text @
     ''\<newline>'' @
     ''        \<newline>'' @
     ''        Important guidelines:\<newline>'' @
     ''        1. Handle cases where column names might be unclear or abbreviated\<newline>'' @
     ''        2. Use appropriate JOINs when data spans multiple tables\<newline>'' @
     ''        3. Apply proper filtering and aggregation\<newline>'' @
     ''        4. Consider data quality issues (nulls, duplicates, inconsistent formats)\<newline>'' @
     ''        5. Return only the SQL query, no explanations\<newline>'' @
     ''        \<newline>'' @
     ''        SQL Query:\<newline>'' @
     ''        ''"

text \<open>
  The arguments of the call at lines 84 to 90. The literal \<^verbatim>\<open>"\\n\\n"\<close> of line 89 is
  the four characters backslash, n, backslash, n.
\<close>

definition sql_request :: "pylib \<Rightarrow> schema \<Rightarrow> json \<Rightarrow> completion_request" where
  "sql_request lib schema_info q =
     \<lparr>engine = ''text-davinci-003'',
      prompt = sql_prompt (format_schema_for_prompt lib schema_info) (question_str lib q),
      max_tokens = 500,
      temperature = 1 / 10,
      stop = Some [backslash_n @ backslash_n]\<rparr>"

definition openai_completion_create :: "env \<Rightarrow> completion_request \<Rightarrow> string list py" where
  "openai_completion_create ev req = bind (emit (Completion req)) (\<lambda>_. lift (completion_create ev req))"

text \<open>\<^verbatim>\<open>SQLAgent.generate_sql_query\<close>; \<open>None\<close> is Python's \<^verbatim>\<open>None\<close>.\<close>

definition generate_sql_query :: "pylib \<Rightarrow> env \<Rightarrow> schema \<Rightarrow> json \<Rightarrow> string option py" where
  "generate_sql_query lib ev schema_info q =
     bind (emit (Call GenerateSql)) (\<lambda>_.
     try_except
       (bind (openai_completion_create ev (sql_request lib schema_info q)) (\<lambda>choices.
        bind (index ''list'' choices 0) (\<lambda>text.
        ret (Some (strip text)))))
       (\<lambda>e. bind (emit (Print (''Error generating SQL: '' @ exc_str e))) (\<lambda>_. ret None)))"

section \<open>The Insight Composer\<close>

definition apology :: string where
  "apology = ''I encountered an error while analyzing the data. Please try rephrasing your question.''"

definition degraded :: "nat \<Rightarrow> string" where
  "degraded n =
     ''Analysis completed, but I couldn't generate detailed insights. Raw results: ''
       @ show_nat n @ '' records found.''"

definition insight_prompt :: "string \<Rightarrow> string \<Rightarrow> string" where
  "insight_prompt question_text data_summary =
     ''\<newline>'' @
     ''        Based on the following business question and data analysis results, provide a comprehensive \<newline>'' @
     ''        natural language answer with key insights.\<newline>'' @
     ''        \<newline>'' @
     ''        Question: '' @
     question_text @
     ''\<newline>'' @
     ''        \<newline>'' @
     ''        Data Summary:\<newline>'' @
     ''        '' @
     data_summary @
     ''\<newline>'' @
     ''        \<newline>'' @
     ''        Provide a clear, business-focused answer that:\<newline>'' @
     ''        1. Directly answers the question\<newline>'' @
     ''        2. Highlights key findings and trends\<newline>'' @
     ''        3. Provides actionable insights\<newline>'' @
     ''        4. Mentions any data quality concerns if relevant\<newline>'' @
     ''        \<newline>'' @
     ''        Answer:\<newline>'' @
     ''        ''"

definition insights_request :: "pylib \<Rightarrow> json \<Rightarrow> query_result \<Rightarrow> completion_request" where
  "insights_request lib q query_results =
     \<lparr>engine = ''text-davinci-003'',
      prompt = insight_prompt (question_str lib q) (summarize_data lib (data query_results)),
      max_tokens = 800,
      temperature = 3 / 10,
      stop = None\<rparr>"

text \<open>
  \<^verbatim>\<open>SQLAgent.generate_insights\<close>. The call of \<^verbatim>\<open>self._summarize_data\<close> stands before
  the \<^verbatim>\<open>try\<close> block; it is marked in the trace where the source makes it.
\<close>

definition generate_insights :: "pylib \<Rightarrow> env \<Rightarrow> json \<Rightarrow> query_result \<Rightarrow> string py" where
  "generate_insights lib ev q query_results =
     bind (emit (Call GenerateInsights)) (\<lambda>_.
     if \<not> success query_results then ret apology
     else
       bind (emit (Call SummarizeData)) (\<lambda>_.
       try_except
         (bind (openai_completion_create ev (insights_request lib q query_results)) (\<lambda>choices.
          bind (index ''list'' choices 0) (\<lambda>text.
          ret (strip text))))
         (\<lambda>e. ret (degraded (length (data query_results))))))"

section \<open>The handler of /api/ask\<close>

record answer =
  question :: json
  sql_query :: string
  results :: query_result
  insights :: string
  timestamp :: string

datatype response_body = ErrorBody string | AnswerBody answer

record response =
  status_code :: nat
  body :: response_body

text \<open>
  \<^verbatim>\<open>data.get(key, default)\<close>: a dict method; on any other parsed value (None, a list,
  a string, a number) the attribute lookup raises AttributeError.
\<close>

fun type_name :: "json \<Rightarrow> string" where
  "type_name JNull = ''NoneType''"
| "type_name (JBool b) = ''bool''"
| "type_name (JInt i) = ''int''"
| "type_name (JFloat f) = ''float''"
| "type_name (JStr s) = ''str''"
| "type_name (JArr xs) = ''list''"
| "type_name (JObj kvs) = ''dict''"

definition no_get :: "json \<Rightarrow> py_exception" where
  "no_get j =
     PyException ''AttributeError''
       (CHR 0x27 # type_name j @ CHR 0x27 # '' object has no attribute '' @
        CHR 0x27 # ''get'' @ [CHR 0x27])"

fun dict_get :: "json \<Rightarrow> string \<Rightarrow> json \<Rightarrow> json py" where
  "dict_get (JObj kvs) k d = ret (case map_of kvs k of None \<Rightarrow> d | Some v \<Rightarrow> v)"
| "dict_get j k d = raise (no_get j)"

definition server_error :: "py_exception \<Rightarrow> response" where
  "server_error e = \<lparr>status_code = 500, body = ErrorBody (''Server error: '' @ exc_str e)\<rparr>"

definition question_required :: response where
  "question_required = \<lparr>status_code = 400, body = ErrorBody ''Question is required''\<rparr>"

definition generation_error :: response where
  "generation_error = \<lparr>status_code = 500, body = ErrorBody ''Could not generate SQL query''\<rparr>"

text \<open>
  \<^verbatim>\<open>jsonify\<close> of the answer (lines 213 to 219). The question is a parsed JSON value,
  the statement, the insights and the timestamp are strings, and the cells of the result
  are None, ints, floats and strings, all of which serialise, or bytes, on which the
  encoder raises TypeError.
\<close>

fun json_serializable :: "scalar \<Rightarrow> bool" where
  "json_serializable (SBytes b) = False"
| "json_serializable x = True"

definition serializable :: "query_result \<Rightarrow> bool" where
  "serializable res = list_all (\<lambda>row. list_all (\<lambda>kv. json_serializable (snd kv)) row) (data res)"

definition bytes_type_error :: py_exception where
  "bytes_type_error = PyException ''TypeError'' ''Object of type bytes is not JSON serializable''"

definition jsonify_answer :: "answer \<Rightarrow> response py" where
  "jsonify_answer a =
     (if serializable (results a) then ret \<lparr>status_code = 200, body = AnswerBody a\<rparr>
      else raise bytes_type_error)"

text \<open>
  \<^verbatim>\<open>ask_question\<close>. \<open>request_json\<close> is the outcome of \<^verbatim>\<open>request.get_json()\<close>;
  \<open>schema_info\<close> is \<^verbatim>\<open>sql_agent.schema_info\<close>, computed once when the module loads.
  The \<^verbatim>\<open>return jsonify(...)\<close> of the answer stands inside the \<^verbatim>\<open>try\<close> block.
\<close>

definition ask_question :: "pylib \<Rightarrow> env \<Rightarrow> schema \<Rightarrow> py_exception + json \<Rightarrow> response py" where
  "ask_question lib ev schema_info request_json =
     try_except
       (bind (lift request_json) (\<lambda>d.
        bind (dict_get d ''question'' (JStr [])) (\<lambda>q.
        if \<not> json_truthy q
        then ret question_required
        else
          bind (generate_sql_query lib ev schema_info q) (\<lambda>generated.
          case generated of
            None \<Rightarrow> ret generation_error
          | Some sql \<Rightarrow>
             if sql = [] then ret generation_error
             else
               bind (execute_query ev sql) (\<lambda>res.
               bind (generate_insights lib ev q res) (\<lambda>ins.
               jsonify_answer \<lparr>question = q, sql_query = sql, results = res,
                               insights = ins, timestamp = datetime_now ev\<rparr>))))))
       (\<lambda>e. ret (server_error e))"

section \<open>Reading a trace\<close>

text \<open>
  The pipeline stages a run entered, the requests it sent to the completion service and
  the statements it sent to the store, each in order.
\<close>

fun called :: "event \<Rightarrow> component option" where
  "called (Call c) = Some c"
| "called ev = None"

fun completion_of :: "event \<Rightarrow> completion_request option" where
  "completion_of (Completion req) = Some req"
| "completion_of ev = None"

fun statement_of :: "event \<Rightarrow> string option" where
  "statement_of (Sql s) = Some s"
| "statement_of ev = None"

definition calls :: "world \<Rightarrow> component list" where
  "calls w = List.map_filter called (trace w)"

definition completion_calls :: "world \<Rightarrow> completion_request list" where
  "completion_calls w = List.map_filter completion_of (trace w)"

definition statements :: "world \<Rightarrow> string list" where
  "statements w = List.map_filter statement_of (trace w)"

text \<open>
  Two responses with the same content apart from the timestamp of an answer.
\<close>

definition same_but_timestamp :: "response \<Rightarrow> response \<Rightarrow> bool" where
  "same_but_timestamp r1 r2 =
     (status_code r1 = status_code r2 \<and>
      (case (body r1, body r2) of
         (ErrorBody e1, ErrorBody e2) \<Rightarrow> e1 = e2
       | (AnswerBody a1, AnswerBody a2) \<Rightarrow>
           question a1 = question a2 \<and> sql_query a1 = sql_query a2 \<and>
           results a1 = results a2 \<and> insights a1 = insights a2
       | _ \<Rightarrow> False))"

section \<open>Concrete worlds, stores and services\<close>

text \<open>
  Inputs on which the definitions are evaluated below. \<open>world0\<close> is a fresh process.
  \<open>env_orders\<close> is a store that answers every statement with a two-row frame and a
  completion service that answers the query prompt (the call with \<open>max_tokens = 500\<close>)
  with a statement and the insight prompt with a sentence.
\<close>

definition world0 :: world where
  "world0 = \<lparr>open_conns = 0, trace = []\<rparr>"

definition orders_frame :: dataframe where
  "orders_frame =
     \<lparr>df_columns = [''order_id'', ''qty''],
      df_rows = [[SInt 1, SInt 5], [SInt 2, SInt 7]]\<rparr>"

definition env_orders :: env where
  "env_orders =
     \<lparr>db_connect = None,
      db_execute = (\<lambda>sql. Inr []),
      db_close = None,
      read_sql_query = (\<lambda>sql. Inr orders_frame),
      completion_create = (\<lambda>req.
         if max_tokens req = 500 then Inr ['' SELECT order_id, qty FROM OrderData '']
         else Inr [''Two orders were found.'']),
      datetime_now = ''2024-01-01T00:00:00''\<rparr>"

text \<open>
  \<open>env_no_table\<close>: the statement names a table the store does not have, so
  \<^verbatim>\<open>pd.read_sql_query\<close> raises. \<open>env_out_of_memory\<close>: the result set does not fit,
  and \<^verbatim>\<open>pd.read_sql_query\<close> raises \<^verbatim>\<open>MemoryError()\<close>, whose \<^verbatim>\<open>str\<close> is empty.
\<close>

definition env_no_table :: env where
  "env_no_table =
     env_orders\<lparr>read_sql_query :=
       (\<lambda>sql. Inl (PyException ''DatabaseError'' ''no such table: ordrs''))\<rparr>"

definition env_out_of_memory :: env where
  "env_out_of_memory =
     env_orders\<lparr>read_sql_query := (\<lambda>sql. Inl (PyException ''MemoryError'' []))\<rparr>"

text \<open>
  \<open>env_service_down\<close>: every completion call raises. \<open>env_blank\<close>: the service answers
  the query prompt with white space only. \<open>env_orders_later\<close>: the same store and the
  same generated statement as \<open>env_orders\<close>, at a later time, the service wording its
  insight differently.
\<close>

definition env_service_down :: env where
  "env_service_down =
     env_orders\<lparr>completion_create :=
       (\<lambda>req. Inl (PyException ''APIConnectionError'' ''Error communicating with OpenAI''))\<rparr>"

definition env_blank :: env where
  "env_blank = env_orders\<lparr>completion_create := (\<lambda>req. Inr [''  \<newline> ''])\<rparr>"

definition env_orders_later :: env where
  "env_orders_later =
     env_orders\<lparr>completion_create := (\<lambda>req.
         if max_tokens req = 500 then Inr ['' SELECT order_id, qty FROM OrderData '']
         else Inr [''There are 2 orders.'']),
       datetime_now := ''2024-01-01T00:00:09''\<rparr>"

text \<open>\<open>env_orders_again\<close>: \<open>env_orders\<close> nine seconds later, nothing else changed.\<close>

definition env_orders_again :: env where
  "env_orders_again = env_orders\<lparr>datetime_now := ''2024-01-01T00:00:09''\<rparr>"

definition failed_result :: query_result where
  "failed_result =
     \<lparr>success = False, data = [], columns = [], row_count = 0,
      error = Some ''no such table: ordrs''\<rparr>"

text \<open>
  An instance of the library parameters for the examples: it is Python's behaviour on
  columns of ints and on strings of plain letters, and a fixed marker elsewhere.
\<close>

fun int_of :: "scalar \<Rightarrow> int" where
  "int_of (SInt i) = i"
| "int_of x = 0"

fun is_int :: "scalar \<Rightarrow> bool" where
  "is_int (SInt i) = True"
| "is_int x = False"

fun json_str_simple :: "json \<Rightarrow> string" where
  "json_str_simple JNull = ''None''"
| "json_str_simple (JBool b) = (if b then ''True'' else ''False'')"
| "json_str_simple (JInt i) = show_int i"
| "json_str_simple j = ''?''"

definition int_lib :: pylib where
  "int_lib =
     \<lparr>float_str = (\<lambda>f. ''?''),
      str_repr = (\<lambda>s. CHR 0x27 # s @ [CHR 0x27]),
      bytes_repr = (\<lambda>b. CHR ''b'' # CHR 0x27 # b @ [CHR 0x27]),
      json_str = json_str_simple,
      number_dtype = (\<lambda>col. col \<noteq> [] \<and> list_all is_int col),
      series_min = (\<lambda>col. SInt (foldl min (int_of (hd col)) (map int_of col))),
      series_max = (\<lambda>col. SInt (foldl max (int_of (hd col)) (map int_of col))),
      series_mean = (\<lambda>col.
         let s = sum_list (map int_of col)
         in Finite (s < 0) (\<bar>of_int s\<bar> / of_nat (length col)))\<rparr>"

text \<open>
  What a store reports, in its own terms. \<open>table_readable lib ev table\<close>: both queries
  of the loop succeed for \<open>table\<close> and every row of \<^verbatim>\<open>PRAGMA table_info\<close> has
  the fields 1 to 3. \<open>reported lib ev table\<close>: one entry per row of
  \<^verbatim>\<open>PRAGMA table_info\<close>, in the order of the rows, with the name (field 1), the
  declared type (field 2) and the negation of the NOT NULL flag (field 3), and the first
  three rows of the sample query. \<open>store_readable lib ev\<close>: the connection opens and
  closes, the catalog query succeeds, every row of the catalog has a field and every
  table it lists is readable.
\<close>

definition table_readable :: "pylib \<Rightarrow> env \<Rightarrow> scalar \<Rightarrow> bool" where
  "table_readable lib ev table =
     (case db_execute ev (table_info_sql lib table) of
        Inl e \<Rightarrow> False
      | Inr cols \<Rightarrow>
          list_all (\<lambda>c. 3 < length c) cols \<and> \<not> isl (db_execute ev (sample_sql lib table)))"

definition reported :: "pylib \<Rightarrow> env \<Rightarrow> scalar \<Rightarrow> table_info" where
  "reported lib ev table =
     \<lparr>table_columns =
        map (\<lambda>c. \<lparr>col_name = c ! 1, col_type = c ! 2, nullable = (\<not> truthy (c ! 3))\<rparr>)
          (projr (db_execute ev (table_info_sql lib table))),
      sample_data = take 3 (projr (db_execute ev (sample_sql lib table)))\<rparr>"

definition store_readable :: "pylib \<Rightarrow> env \<Rightarrow> bool" where
  "store_readable lib ev =
     (db_connect ev = None \<and>
      (case db_execute ev tables_sql of
         Inl e \<Rightarrow> False
       | Inr rows \<Rightarrow>
           list_all (\<lambda>r. r \<noteq> []) rows \<and> list_all (\<lambda>r. table_readable lib ev (hd r)) rows) \<and>
      db_close ev = None)"

text \<open>
  \<open>env_shop\<close>: a store with the tables \<^verbatim>\<open>cust_tbl\<close> (two columns, five rows) and
  \<^verbatim>\<open>prod_master\<close> (one column, no row). \<open>env_broken_table\<close>: the same store, where
  \<^verbatim>\<open>PRAGMA table_info(prod_master)\<close> raises. \<open>env_unreachable\<close>:
  \<^verbatim>\<open>sqlite3.connect\<close> raises.
\<close>

definition env_shop :: env where
  "env_shop =
     env_orders\<lparr>db_execute := (\<lambda>sql.
        if sql = tables_sql then Inr [[SStr ''cust_tbl''], [SStr ''prod_master'']]
        else if sql = ''PRAGMA table_info(cust_tbl)''
        then Inr [[SInt 0, SStr ''id'', SStr ''INTEGER'', SInt 0, SNone, SInt 1],
                  [SInt 1, SStr ''nm'', SStr ''VARCHAR(100)'', SInt 1, SNone, SInt 0]]
        else if sql = ''SELECT * FROM cust_tbl LIMIT 5''
        then Inr [[SInt 1, SStr ''Ann''], [SInt 2, SStr ''Bob''], [SInt 3, SStr ''Cy''],
                  [SInt 4, SStr ''Di''], [SInt 5, SStr ''Ed'']]
        else if sql = ''PRAGMA table_info(prod_master)''
        then Inr [[SInt 0, SStr ''pid'', SStr ''INTEGER'', SInt 0, SNone, SInt 1]]
        else Inr [])\<rparr>"

definition env_broken_table :: env where
  "env_broken_table =
     env_shop\<lparr>db_execute := (\<lambda>sql.
        if sql = ''PRAGMA table_info(prod_master)''
        then Inl (PyException ''OperationalError'' ''database disk image is malformed'')
        else db_execute env_shop sql)\<rparr>"

definition env_unreachable :: env where
  "env_unreachable =
     env_orders\<lparr>db_connect :=
       Some (PyException ''OperationalError'' ''unable to open database file'')\<rparr>"

definition cust_schema :: schema where
  "cust_schema =
     [(SStr ''cust_tbl'',
       \<lparr>table_columns =
          [\<lparr>col_name = SStr ''id'', col_type = SStr ''INTEGER'', nullable = True\<rparr>,
           \<lparr>col_name = SStr ''nm'', col_type = SStr ''VARCHAR(100)'', nullable = False\<rparr>],
        sample_data = [[SInt 1, SStr ''Ann''], [SInt 2, SStr ''Bob''], [SInt 3, SStr ''Cy'']]\<rparr>)]"

definition shop_schema :: schema where
  "shop_schema =
     cust_schema @
     [(SStr ''prod_master'',
       \<lparr>table_columns =
          [\<lparr>col_name = SStr ''pid'', col_type = SStr ''INTEGER'', nullable = True\<rparr>],
        sample_data = []\<rparr>)]"

text \<open>
  A result set of five rows: an id, a name, and three more columns of ints. The later
  rows hold the large values of column \<^verbatim>\<open>a\<close>.
\<close>

definition five_rows :: "(string, scalar) dict list" where
  "five_rows =
     [[(''id'', SInt 1), (''name'', SStr ''Ann''), (''a'', SInt 1), (''b'', SInt 10), (''c'', SInt 7)],
      [(''id'', SInt 2), (''name'', SStr ''Bob''), (''a'', SInt 2), (''b'', SInt 25), (''c'', SInt 7)],
      [(''id'', SInt 3), (''name'', SStr ''Cy''), (''a'', SInt 100), (''b'', SInt 10), (''c'', SInt 7)],
      [(''id'', SInt 4), (''name'', SStr ''Di''), (''a'', SInt 100), (''b'', SInt 10), (''c'', SInt 7)],
      [(''id'', SInt 5), (''name'', SStr ''Ed''), (''a'', SInt 100), (''b'', SInt 10), (''c'', SInt 8)]]"

text \<open>
  \<open>env_blob\<close>: the store answers with a frame that holds a BLOB cell, which pandas hands
  over as a bytes object.
\<close>

definition env_blob :: env where
  "env_blob =
     env_orders\<lparr>read_sql_query :=
       (\<lambda>sql. Inr \<lparr>df_columns = [''order_id'', ''img''],
                     df_rows = [[SInt 1, SBytes ''PNG'']]\<rparr>)\<rparr>"

section \<open>Dicts\<close>

lemma keys_dict_set:
  "keys (dict_set d k v) = (if k \<in> set (keys d) then keys d else keys d @ [k])"
  by (induction d) (force simp: keys_def)+

lemma keys_foldl_dict_set:
  "set (keys (foldl (\<lambda>d (k, v). dict_set d k v) d kvs)) = set (keys d) \<union> fst ` set kvs"
  by (induction kvs arbitrary: d) (auto simp: keys_dict_set split: prod.splits)

lemma set_keys_dict_of: "set (keys (dict_of kvs)) = fst ` set kvs"
  by (simp add: dict_of_def keys_foldl_dict_set) (simp add: keys_def)

lemma dict_set_fresh: "k \<notin> set (keys d) \<Longrightarrow> dict_set d k v = d @ [(k, v)]"
  by (induction d) (auto simp: keys_def)

lemma foldl_dict_set_distinct:
  "distinct (keys d @ map fst kvs) \<Longrightarrow> foldl (\<lambda>d (k, v). dict_set d k v) d kvs = d @ kvs"
  by (induction kvs arbitrary: d) (auto simp: dict_set_fresh keys_def split: prod.splits)

lemma dict_of_distinct: "distinct (map fst kvs) \<Longrightarrow> dict_of kvs = kvs"
  using foldl_dict_set_distinct [of "[]" kvs] by (simp add: dict_of_def keys_def)

lemma keys_dict_of_distinct: "distinct (map fst kvs) \<Longrightarrow> keys (dict_of kvs) = map fst kvs"
  by (simp add: dict_of_distinct keys_def)

section \<open>The Query Executor: results\<close>

text \<open>
  The records of a rectangular frame have the frame's columns as their key set, and as
  their key list when no label occurs twice. (With a repeated label, as for
  \<^verbatim>\<open>SELECT 1 AS a, 2 AS a\<close>, the dict keeps one key and the last value.)
\<close>

lemma to_dict_records_keys:
  assumes "rectangular df"
  shows "list_all (\<lambda>row. set (keys row) = set (df_columns df) \<and>
            (distinct (df_columns df) \<longrightarrow> keys row = df_columns df)) (to_dict_records df)"
proof -
  have "set (keys (dict_of (zip (df_columns df) r))) = set (df_columns df) \<and>
        (distinct (df_columns df) \<longrightarrow> keys (dict_of (zip (df_columns df) r)) = df_columns df)"
    if "length r = length (df_columns df)" for r
  proof -
    from that have m: "map fst (zip (df_columns df) r) = df_columns df" by simp
    have "set (keys (dict_of (zip (df_columns df) r))) = set (map fst (zip (df_columns df) r))"
      by (simp add: set_keys_dict_of)
    with m have s: "set (keys (dict_of (zip (df_columns df) r))) = set (df_columns df)" by simp
    have "keys (dict_of (zip (df_columns df) r)) = df_columns df" if "distinct (df_columns df)"
      using keys_dict_of_distinct [of "zip (df_columns df) r"] m that by simp
    with s show ?thesis by simp
  qed
  with assms show ?thesis
    unfolding rectangular_def to_dict_records_def list_all_iff by auto
qed

text \<open>The four ways through \<open>execute_query\<close>, with the world each leaves.\<close>

lemma execute_query_cases:
  "execute_query ev q w =
    (let w1 = w\<lparr>trace := trace w @ [Call ExecuteQuery]\<rparr>;
         failed = (\<lambda>e. \<lparr>success = False, data = [], columns = [], row_count = 0,
                         error = Some (exc_str e)\<rparr>)
     in case db_connect ev of
       Some e \<Rightarrow> (Inr (failed e), w1)
     | None \<Rightarrow>
        (let w2 = w1\<lparr>open_conns := Suc (open_conns w1), trace := trace w1 @ [Sql q]\<rparr>
         in case read_sql_query ev q of
           Inl e \<Rightarrow> (Inr (failed e), w2)
         | Inr df \<Rightarrow>
            (case db_close ev of
               Some e \<Rightarrow> (Inr (failed e), w2)
             | None \<Rightarrow> (Inr \<lparr>success = True, data = to_dict_records df, columns = df_columns df,
                               row_count = length (df_rows df), error = None\<rparr>,
                         w2\<lparr>open_conns := open_conns w2 - 1\<rparr>))))"
  by (simp add: execute_query_def bind_def try_except_def emit_def ret_def lift_def
      sqlite3_connect_def conn_close_def pd_read_sql_query_def Let_def
      split: option.splits sum.splits)

text \<open>
  C1 (as amended). \<open>execute_query\<close> returns a result and never raises. A failed result
  has no rows, no columns, row count 0, and its error is the text of the exception that
  the connection, the query or the close raised. A successful result has no error, its
  row count is the number of its rows, and every row has the result's columns as its
  key set (as its key list when the column labels are distinct).
\<close>

theorem execute_query_invariant:
  assumes "frames_rectangular ev q"
  shows "\<exists>r w'. execute_query ev q w = (Inr r, w') \<and>
     (if success r
      then error r = None \<and> row_count r = length (data r) \<and>
           list_all (\<lambda>row. set (keys row) = set (columns r) \<and>
                          (distinct (columns r) \<longrightarrow> keys row = columns r)) (data r)
      else data r = [] \<and> columns r = [] \<and> row_count r = 0 \<and>
           (\<exists>e. (db_connect ev = Some e \<or> read_sql_query ev q = Inl e \<or> db_close ev = Some e) \<and>
                error r = Some (exc_str e)))"
proof (cases "db_connect ev")
  case (Some e)
  then show ?thesis by (auto simp: execute_query_cases)
next
  case None
  show ?thesis
  proof (cases "read_sql_query ev q")
    case (Inl e)
    with None show ?thesis by (auto simp: execute_query_cases)
  next
    case (Inr df)
    show ?thesis
    proof (cases "db_close ev")
      case (Some e)
      with None Inr show ?thesis by (auto simp: execute_query_cases)
    next
      case no_close_error: None
      from assms Inr have "rectangular df" by (simp add: frames_rectangular_def)
      then have "list_all (\<lambda>row. set (keys row) = set (df_columns df) \<and>
            (distinct (df_columns df) \<longrightarrow> keys row = df_columns df)) (to_dict_records df)"
        by (rule to_dict_records_keys)
      with None Inr no_close_error show ?thesis
        by (simp add: execute_query_cases to_dict_records_def)
    qed
  qed
qed

theorem execute_query_invariant_witness:
  "frames_rectangular env_orders ''SELECT order_id, qty FROM OrderData'' \<and>
   (\<exists>r w'. execute_query env_orders ''SELECT order_id, qty FROM OrderData'' world0 = (Inr r, w') \<and>
      success r \<and> error r = None \<and> row_count r = 2 \<and> length (data r) = 2 \<and>
      columns r = [''order_id'', ''qty''] \<and>
      list_all (\<lambda>row. keys row = [''order_id'', ''qty'']) (data r))"
proof -
  let ?q = "''SELECT order_id, qty FROM OrderData''"
  have h: "frames_rectangular env_orders ?q"
    by (simp add: frames_rectangular_def env_orders_def orders_frame_def rectangular_def)
  from execute_query_invariant [OF h, of world0] obtain r w' where
    r: "execute_query env_orders ?q world0 = (Inr r, w')"
    and inv: "if success r
      then error r = None \<and> row_count r = length (data r) \<and>
           list_all (\<lambda>row. set (keys row) = set (columns r) \<and>
                          (distinct (columns r) \<longrightarrow> keys row = columns r)) (data r)
      else data r = [] \<and> columns r = [] \<and> row_count r = 0 \<and>
           (\<exists>e. (db_connect env_orders = Some e \<or> read_sql_query env_orders ?q = Inl e \<or>
                 db_close env_orders = Some e) \<and>
                error r = Some (exc_str e))"
    by blast
  from r have c: "columns r = [''order_id'', ''qty''] \<and> row_count r = 2 \<and> success r"
    by (auto simp: execute_query_cases env_orders_def orders_frame_def Let_def)
  with inv have "error r = None \<and> length (data r) = 2 \<and>
      list_all (\<lambda>row. keys row = [''order_id'', ''qty'']) (data r)"
    by (auto simp: list_all_iff)
  with h r c show ?thesis by blast
qed

text \<open>
  The error text of a failed result is \<^verbatim>\<open>str(e)\<close> and nothing makes it non-empty:
  \<^verbatim>\<open>MemoryError()\<close> has the empty text.
\<close>

theorem execute_query_empty_error:
  "fst (execute_query env_out_of_memory ''SELECT * FROM OrderData'' world0) =
     Inr \<lparr>success = False, data = [], columns = [], row_count = 0, error = Some []\<rparr>"
  by (simp add: execute_query_cases env_out_of_memory_def env_orders_def)

section \<open>The Query Executor: the connection\<close>

text \<open>
  \<^verbatim>\<open>conn.close()\<close> stands inside the \<^verbatim>\<open>try\<close> block after the query, and the
  \<^verbatim>\<open>except\<close> branch does not close: the connection is released when the query
  succeeds and stays open when the query raises.
\<close>

lemma execute_query_open_conns:
  "open_conns (snd (execute_query ev q w)) =
     (if db_connect ev = None \<and> (isl (read_sql_query ev q) \<or> db_close ev \<noteq> None)
      then Suc (open_conns w) else open_conns w)"
  by (auto simp: execute_query_cases Let_def split: option.splits sum.splits)

text \<open>
  C2. On the statement \<^verbatim>\<open>SELECT * FROM ordrs\<close> against a store without that table,
  \<open>execute_query\<close> returns the failed result and leaves one connection open.
\<close>

theorem execute_query_leaks_connection:
  "execute_query env_no_table ''SELECT * FROM ordrs'' world0 =
     (Inr \<lparr>success = False, data = [], columns = [], row_count = 0,
           error = Some ''no such table: ordrs''\<rparr>,
      \<lparr>open_conns = 1, trace = [Call ExecuteQuery, Sql ''SELECT * FROM ordrs'']\<rparr>)"
  by (simp add: execute_query_cases env_no_table_def env_orders_def world0_def)

section \<open>The Query Generator, the Insight Composer and the handler\<close>

lemma index_0:
  "index kind xs 0 =
     (case xs of [] \<Rightarrow> raise (PyException ''IndexError'' (kind @ '' index out of range''))
                 | x # _ \<Rightarrow> ret x)"
  by (simp add: index_def split: list.splits)

lemma map_filter_append:
  "List.map_filter f (xs @ ys) = List.map_filter f xs @ List.map_filter f ys"
  by (simp add: List.map_filter_def)

text \<open>The three ways through \<open>generate_sql_query\<close>, with the world each leaves.\<close>

lemma generate_sql_query_cases:
  "generate_sql_query lib ev sch q w =
    (let req = sql_request lib sch q;
         w1 = w\<lparr>trace := trace w @ [Call GenerateSql, Completion req]\<rparr>
     in case completion_create ev req of
          Inl e \<Rightarrow>
            (Inr None, w1\<lparr>trace := trace w1 @ [Print (''Error generating SQL: '' @ exc_str e)]\<rparr>)
        | Inr [] \<Rightarrow>
            (Inr None,
             w1\<lparr>trace := trace w1 @ [Print ''Error generating SQL: list index out of range'']\<rparr>)
        | Inr (text # _) \<Rightarrow> (Inr (Some (strip text)), w1))"
  by (simp add: generate_sql_query_def openai_completion_create_def bind_def try_except_def
      emit_def ret_def raise_def lift_def index_0 Let_def
      split: sum.splits list.splits)

text \<open>The ways through \<open>generate_insights\<close>.\<close>

lemma generate_insights_cases:
  "generate_insights lib ev q r w =
    (let w1 = w\<lparr>trace := trace w @ [Call GenerateInsights]\<rparr>
     in if \<not> success r then (Inr apology, w1)
        else
          (let req = insights_request lib q r;
               w2 = w1\<lparr>trace := trace w1 @ [Call SummarizeData, Completion req]\<rparr>
           in case completion_create ev req of
                Inl e \<Rightarrow> (Inr (degraded (length (data r))), w2)
              | Inr [] \<Rightarrow> (Inr (degraded (length (data r))), w2)
              | Inr (text # _) \<Rightarrow> (Inr (strip text), w2)))"
  by (simp add: generate_insights_def openai_completion_create_def bind_def try_except_def
      emit_def ret_def raise_def lift_def index_0 Let_def
      split: sum.splits list.splits)

text \<open>
  C3. On a failed QueryResult \<open>generate_insights\<close> returns the fixed message
  \<open>apology\<close>, and the requests sent to the completion service are those sent before:
  the call sends none.
\<close>

theorem failed_result_no_completion:
  assumes "\<not> success r"
  shows "fst (generate_insights lib ev q r w) = Inr apology \<and>
         completion_calls (snd (generate_insights lib ev q r w)) = completion_calls w"
  using assms
  by (simp add: generate_insights_cases completion_calls_def map_filter_append Let_def)

theorem failed_result_no_completion_witness:
  "\<not> success failed_result \<and>
   fst (generate_insights int_lib env_orders (JStr ''How many orders?'') failed_result world0) =
     Inr ''I encountered an error while analyzing the data. Please try rephrasing your question.'' \<and>
   completion_calls
     (snd (generate_insights int_lib env_orders (JStr ''How many orders?'') failed_result world0)) = []"
proof -
  have h: "\<not> success failed_result" by (simp add: failed_result_def)
  have "completion_calls world0 = []" by (simp add: completion_calls_def world0_def)
  with failed_result_no_completion [OF h, of int_lib env_orders "JStr ''How many orders?''" world0] h
  show ?thesis by (simp add: apology_def)
qed

text \<open>The handler on a request whose JSON body is an object.\<close>

lemma ask_question_obj:
  "ask_question lib ev sch (Inr (JObj kvs)) w =
     (let q = (case map_of kvs ''question'' of None \<Rightarrow> JStr [] | Some v \<Rightarrow> v)
      in if \<not> json_truthy q
         then (Inr question_required, w)
         else
           (case generate_sql_query lib ev sch q w of
              (Inl e, w1) \<Rightarrow> (Inr (server_error e), w1)
            | (Inr None, w1) \<Rightarrow> (Inr generation_error, w1)
            | (Inr (Some sql), w1) \<Rightarrow>
                if sql = [] then (Inr generation_error, w1)
                else
                  (case execute_query ev sql w1 of
                     (Inl e, w2) \<Rightarrow> (Inr (server_error e), w2)
                   | (Inr res, w2) \<Rightarrow>
                       (case generate_insights lib ev q res w2 of
                          (Inl e, w3) \<Rightarrow> (Inr (server_error e), w3)
                        | (Inr ins, w3) \<Rightarrow>
                            (Inr (if serializable res
                                  then \<lparr>status_code = 200,
                                        body = AnswerBody \<lparr>question = q, sql_query = sql,
                                                 results = res, insights = ins,
                                                 timestamp = datetime_now ev\<rparr>\<rparr>
                                  else server_error bytes_type_error), w3)))))"
  by (simp add: ask_question_def bind_def try_except_def ret_def raise_def lift_def Let_def
      jsonify_answer_def split: sum.splits option.splits prod.splits)

lemma generate_sql_query_world:
  "calls (snd (generate_sql_query lib ev sch q w)) = calls w @ [GenerateSql]"
  "statements (snd (generate_sql_query lib ev sch q w)) = statements w"
  "open_conns (snd (generate_sql_query lib ev sch q w)) = open_conns w"
  "completion_calls (snd (generate_sql_query lib ev sch q w)) =
     completion_calls w @ [sql_request lib sch q]"
  by (simp_all add: generate_sql_query_cases calls_def statements_def completion_calls_def
      map_filter_append Let_def split: sum.splits list.splits)

lemma ask_question_no_query:
  assumes "map_of kvs ''question'' = Some q" and "json_truthy q"
    and "fst (generate_sql_query lib ev sch q w) = Inr None \<or>
         fst (generate_sql_query lib ev sch q w) = Inr (Some [])"
  shows "ask_question lib ev sch (Inr (JObj kvs)) w =
           (Inr generation_error, snd (generate_sql_query lib ev sch q w))"
proof -
  define w1 where "w1 = snd (generate_sql_query lib ev sch q w)"
  from assms(3) have "generate_sql_query lib ev sch q w = (Inr None, w1) \<or>
      generate_sql_query lib ev sch q w = (Inr (Some []), w1)"
    unfolding w1_def by (cases "generate_sql_query lib ev sch q w") simp
  with assms(1,2) show ?thesis
    unfolding w1_def [symmetric] by (auto simp: ask_question_obj)
qed

text \<open>A request without a JSON object: the handler fails before it reads a question.\<close>

lemma ask_question_no_object:
  "ask_question lib ev sch (Inl e) w = (Inr (server_error e), w)"
  "(\<forall>kvs. j \<noteq> JObj kvs) \<Longrightarrow>
     ask_question lib ev sch (Inr j) w = (Inr (server_error (no_get j)), w)"
proof -
  show "ask_question lib ev sch (Inl e) w = (Inr (server_error e), w)"
    by (simp add: ask_question_def bind_def try_except_def lift_def ret_def)
  assume "\<forall>kvs. j \<noteq> JObj kvs"
  then have "dict_get j ''question'' (JStr []) = raise (no_get j)" by (cases j) simp_all
  then show "ask_question lib ev sch (Inr j) w = (Inr (server_error (no_get j)), w)"
    by (simp add: ask_question_def bind_def try_except_def lift_def ret_def raise_def)
qed

text \<open>
  C8. When the body has no question, or an empty one, the handler answers
  \<open>question_required\<close> (status 400) and leaves the world as it found it: no stage was
  entered and nothing was sent. So it does, with a server error (status 500), when the
  body is not a JSON object. When the generator returns None, the handler answers
  \<open>generation_error\<close> (status 500, an error body and never an answer body); the only
  stage entered is the generator, no statement reaches the store and no connection is
  opened.
\<close>

theorem ask_question_rejections:
  "(map_of kvs ''question'' = None \<or> map_of kvs ''question'' = Some (JStr []) \<longrightarrow>
      ask_question lib ev sch (Inr (JObj kvs)) w = (Inr question_required, w)) \<and>
   ((\<forall>kvs. j \<noteq> JObj kvs) \<longrightarrow>
      ask_question lib ev sch (Inr j) w = (Inr (server_error (no_get j)), w)) \<and>
   (map_of kvs ''question'' = Some q \<and> json_truthy q \<and>
    fst (generate_sql_query lib ev sch q w) = Inr None \<longrightarrow>
      fst (ask_question lib ev sch (Inr (JObj kvs)) w) = Inr generation_error \<and>
      calls (snd (ask_question lib ev sch (Inr (JObj kvs)) w)) = calls w @ [GenerateSql] \<and>
      statements (snd (ask_question lib ev sch (Inr (JObj kvs)) w)) = statements w \<and>
      open_conns (snd (ask_question lib ev sch (Inr (JObj kvs)) w)) = open_conns w \<and>
      status_code generation_error = 500 \<and>
      body generation_error = ErrorBody ''Could not generate SQL query'' \<and>
      (\<forall>a. body generation_error \<noteq> AnswerBody a))"
proof (intro conjI impI)
  assume "map_of kvs ''question'' = None \<or> map_of kvs ''question'' = Some (JStr [])"
  then show "ask_question lib ev sch (Inr (JObj kvs)) w = (Inr question_required, w)"
    by (auto simp: ask_question_obj)
next
  assume "\<forall>kvs. j \<noteq> JObj kvs"
  then show "ask_question lib ev sch (Inr j) w = (Inr (server_error (no_get j)), w)"
    by (rule ask_question_no_object)
next
  assume a: "map_of kvs ''question'' = Some q \<and> json_truthy q \<and>
    fst (generate_sql_query lib ev sch q w) = Inr None"
  then have ask: "ask_question lib ev sch (Inr (JObj kvs)) w =
      (Inr generation_error, snd (generate_sql_query lib ev sch q w))"
    by (intro ask_question_no_query) simp_all
  show "fst (ask_question lib ev sch (Inr (JObj kvs)) w) = Inr generation_error"
    by (simp add: ask)
  show "calls (snd (ask_question lib ev sch (Inr (JObj kvs)) w)) = calls w @ [GenerateSql]"
    by (simp add: ask generate_sql_query_world)
  show "statements (snd (ask_question lib ev sch (Inr (JObj kvs)) w)) = statements w"
    by (simp add: ask generate_sql_query_world)
  show "open_conns (snd (ask_question lib ev sch (Inr (JObj kvs)) w)) = open_conns w"
    by (simp add: ask generate_sql_query_world)
  show "status_code generation_error = 500" by (simp add: generation_error_def)
  show "body generation_error = ErrorBody ''Could not generate SQL query''"
    by (simp add: generation_error_def)
  show "\<forall>a. body generation_error \<noteq> AnswerBody a" by (simp add: generation_error_def)
qed

theorem ask_question_rejections_witness:
  "ask_question int_lib env_orders [] (Inr JNull) world0 =
     (Inr \<lparr>status_code = 500,
           body = ErrorBody (''Server error: '' @ exc_str (no_get JNull))\<rparr>, world0) \<and>
   ask_question int_lib env_orders [] (Inr (JObj [])) world0 =
     (Inr \<lparr>status_code = 400, body = ErrorBody ''Question is required''\<rparr>, world0) \<and>
   ask_question int_lib env_orders [] (Inr (JObj [(''question'', JStr [])])) world0 =
     (Inr \<lparr>status_code = 400, body = ErrorBody ''Question is required''\<rparr>, world0) \<and>
   fst (generate_sql_query int_lib env_service_down [] (JStr ''How many orders?'') world0) = Inr None \<and>
   fst (ask_question int_lib env_service_down []
          (Inr (JObj [(''question'', JStr ''How many orders?'')])) world0) =
     Inr \<lparr>status_code = 500, body = ErrorBody ''Could not generate SQL query''\<rparr> \<and>
   calls (snd (ask_question int_lib env_service_down []
          (Inr (JObj [(''question'', JStr ''How many orders?'')])) world0)) = [GenerateSql] \<and>
   statements (snd (ask_question int_lib env_service_down []
          (Inr (JObj [(''question'', JStr ''How many orders?'')])) world0)) = []"
proof -
  let ?q = "JStr ''How many orders?''"
  have g: "fst (generate_sql_query int_lib env_service_down [] ?q world0) = Inr None"
    by (simp add: generate_sql_query_cases env_service_down_def env_orders_def Let_def)
  have c: "calls world0 = []" "statements world0 = []"
    by (simp_all add: calls_def statements_def world0_def)
  from ask_question_rejections [where kvs="[]" and q="?q" and lib=int_lib and ev=env_orders and sch="[]" and w=world0]
  have 1: "ask_question int_lib env_orders [] (Inr (JObj [])) world0 = (Inr question_required, world0)"
    by simp
  from ask_question_rejections [where kvs="[(''question'', JStr [])]" and q="?q" and lib=int_lib and ev=env_orders and sch="[]" and w=world0]
  have 2: "ask_question int_lib env_orders [] (Inr (JObj [(''question'', JStr [])])) world0 =
      (Inr question_required, world0)"
    by simp
  from ask_question_rejections [where kvs="[(''question'', ?q)]" and q="?q" and lib=int_lib and ev=env_service_down and sch="[]" and w=world0] g
  have 3: "fst (ask_question int_lib env_service_down [] (Inr (JObj [(''question'', ?q)])) world0) =
        Inr generation_error \<and>
      calls (snd (ask_question int_lib env_service_down [] (Inr (JObj [(''question'', ?q)])) world0)) =
        calls world0 @ [GenerateSql] \<and>
      statements (snd (ask_question int_lib env_service_down [] (Inr (JObj [(''question'', ?q)])) world0)) =
        statements world0"
    by simp
  from ask_question_rejections [where j=JNull and q="?q" and lib=int_lib and ev=env_orders
      and sch="[]" and w=world0]
  have 4: "ask_question int_lib env_orders [] (Inr JNull) world0 =
      (Inr (server_error (no_get JNull)), world0)"
    by simp
  from 1 2 3 4 g c show ?thesis
    by (simp add: question_required_def generation_error_def server_error_def)
qed

lemma strip_all_space: "list_all py_isspace t \<Longrightarrow> strip t = []"
proof -
  assume "list_all py_isspace t"
  then have "dropWhile py_isspace t = []" by (simp add: list_all_iff)
  then show ?thesis unfolding strip_def by (simp only: rev.simps dropWhile.simps)
qed

text \<open>
  C10. When the first choice of the completion is white space only, the generator
  returns the empty string, and the handler answers \<open>generation_error\<close>, the answer
  it gives for None: the only stage entered is the generator, no statement reaches the
  store and no connection is opened.
\<close>

theorem blank_completion_not_executed:
  assumes "completion_create ev (sql_request lib sch q) = Inr (t # ts)"
    and "list_all py_isspace t"
    and "map_of kvs ''question'' = Some q" and "json_truthy q"
  shows "fst (generate_sql_query lib ev sch q w) = Inr (Some []) \<and>
         fst (ask_question lib ev sch (Inr (JObj kvs)) w) = Inr generation_error \<and>
         statements (snd (ask_question lib ev sch (Inr (JObj kvs)) w)) = statements w \<and>
         calls (snd (ask_question lib ev sch (Inr (JObj kvs)) w)) = calls w @ [GenerateSql] \<and>
         open_conns (snd (ask_question lib ev sch (Inr (JObj kvs)) w)) = open_conns w"
proof -
  from assms(1,2) have g: "generate_sql_query lib ev sch q w =
      (Inr (Some []), w\<lparr>trace := trace w @ [Call GenerateSql, Completion (sql_request lib sch q)]\<rparr>)"
    by (simp add: generate_sql_query_cases strip_all_space Let_def)
  then have "fst (generate_sql_query lib ev sch q w) = Inr None \<or>
      fst (generate_sql_query lib ev sch q w) = Inr (Some [])"
    by simp
  with assms(3,4) have ask: "ask_question lib ev sch (Inr (JObj kvs)) w =
      (Inr generation_error, snd (generate_sql_query lib ev sch q w))"
    by (rule ask_question_no_query)
  show ?thesis
    by (simp add: ask generate_sql_query_world) (simp add: g)
qed

theorem blank_completion_not_executed_witness:
  "completion_create env_blank (sql_request int_lib [] (JStr ''How many orders?'')) = Inr [''  \<newline> ''] \<and>
   list_all py_isspace ''  \<newline> '' \<and>
   fst (generate_sql_query int_lib env_blank [] (JStr ''How many orders?'') world0) = Inr (Some []) \<and>
   fst (ask_question int_lib env_blank [] (Inr (JObj [(''question'', JStr ''How many orders?'')])) world0) =
     Inr \<lparr>status_code = 500, body = ErrorBody ''Could not generate SQL query''\<rparr> \<and>
   statements (snd (ask_question int_lib env_blank []
      (Inr (JObj [(''question'', JStr ''How many orders?'')])) world0)) = [] \<and>
   calls (snd (ask_question int_lib env_blank []
      (Inr (JObj [(''question'', JStr ''How many orders?'')])) world0)) = [GenerateSql] \<and>
   open_conns (snd (ask_question int_lib env_blank []
      (Inr (JObj [(''question'', JStr ''How many orders?'')])) world0)) = 0"
proof -
  let ?q = "JStr ''How many orders?''"
  have c: "completion_create env_blank (sql_request int_lib [] ?q) = Inr [''  \<newline> '']"
    by (simp add: env_blank_def)
  have s: "list_all py_isspace ''  \<newline> ''"
    by (simp add: py_isspace_def)
  have m: "map_of [(''question'', ?q)] ''question'' = Some ?q" by simp
  have t: "json_truthy ?q" by simp
  have z: "statements world0 = []" "calls world0 = []" "open_conns world0 = 0"
    by (simp_all add: statements_def calls_def world0_def)
  from blank_completion_not_executed [OF c s m t, of world0] c s z
  show ?thesis by (simp add: generation_error_def)
qed

text \<open>
  The generator never raises; it returns None when the service call raises or the
  response has no choice, and the stripped text of the first choice otherwise. It sends
  one request, with \<open>max_tokens = 500\<close> and temperature 0.1.
\<close>

lemma generate_sql_query_returns:
  "\<exists>g. fst (generate_sql_query lib ev sch q w) = Inr g"
  by (simp add: generate_sql_query_cases Let_def split: sum.splits list.splits)

lemma generate_sql_query_result:
  "fst (generate_sql_query lib ev sch q w) =
     Inr (case completion_create ev (sql_request lib sch q) of
            Inl e \<Rightarrow> None | Inr [] \<Rightarrow> None | Inr (text # _) \<Rightarrow> Some (strip text))"
  by (simp add: generate_sql_query_cases Let_def split: sum.splits list.splits)

lemma sql_request_parameters:
  "max_tokens (sql_request lib sch q) = 500"
  "temperature (sql_request lib sch q) = 1 / 10"
  "engine (sql_request lib sch q) = ''text-davinci-003''"
  by (simp_all add: sql_request_def)

text \<open>
  C4. The stop sequence of the one request the generator sends is the four characters
  backslash, n, backslash, n; it is not two line breaks.
\<close>

theorem sql_request_stop:
  "stop (sql_request int_lib [] (JStr ''How many customers are active?'')) =
      Some [[CHR 0x5C, CHR ''n'', CHR 0x5C, CHR ''n'']] \<and>
   stop (sql_request int_lib [] (JStr ''How many customers are active?'')) \<noteq>
      Some [[CHR ''\<newline>'', CHR ''\<newline>'']] \<and>
   completion_calls
     (snd (generate_sql_query int_lib env_orders [] (JStr ''How many customers are active?'') world0)) =
     [sql_request int_lib [] (JStr ''How many customers are active?'')]"
  by (simp add: sql_request_def backslash_n_def generate_sql_query_world)
     (simp add: completion_calls_def world0_def)

section \<open>Two runs of the pipeline\<close>

text \<open>What each stage returns does not depend on the world it starts in.\<close>

lemma execute_query_returns: "\<exists>r. fst (execute_query ev q w) = Inr r"
  by (simp add: execute_query_cases Let_def split: option.splits sum.splits)

lemma execute_query_any_world: "fst (execute_query ev q w) = fst (execute_query ev q w')"
  by (simp add: execute_query_cases Let_def split: option.splits sum.splits)

lemma generate_insights_result:
  "fst (generate_insights lib ev q r w) =
     Inr (if \<not> success r then apology
          else case completion_create ev (insights_request lib q r) of
                 Inl e \<Rightarrow> degraded (length (data r))
               | Inr [] \<Rightarrow> degraded (length (data r))
               | Inr (text # _) \<Rightarrow> strip text)"
  by (simp add: generate_insights_cases Let_def split: sum.splits list.splits)

lemma insights_request_parameters:
  "max_tokens (insights_request lib q r) = 800"
  "temperature (insights_request lib q r) = 3 / 10"
  "stop (insights_request lib q r) = None"
  by (simp_all add: insights_request_def)

text \<open>The response of the handler, from the values the three stages return.\<close>

lemma fst_ask_question_obj:
  assumes "map_of kvs ''question'' = Some q"
  shows "fst (ask_question lib ev sch (Inr (JObj kvs)) w) =
     Inr (if \<not> json_truthy q then question_required
          else case fst (generate_sql_query lib ev sch q w) of
                 Inl e \<Rightarrow> server_error e
               | Inr None \<Rightarrow> generation_error
               | Inr (Some sql) \<Rightarrow>
                   if sql = [] then generation_error
                   else (case fst (execute_query ev sql w) of
                           Inl e \<Rightarrow> server_error e
                         | Inr res \<Rightarrow>
                             (case fst (generate_insights lib ev q res w) of
                                Inl e \<Rightarrow> server_error e
                              | Inr ins \<Rightarrow>
                                  if serializable res
                                  then \<lparr>status_code = 200,
                                        body = AnswerBody \<lparr>question = q, sql_query = sql,
                                                 results = res, insights = ins,
                                                 timestamp = datetime_now ev\<rparr>\<rparr>
                                  else server_error bytes_type_error)))"
proof (cases "json_truthy q")
  case False
  with assms show ?thesis by (simp add: ask_question_obj)
next
  case True
  obtain g w1 where g: "generate_sql_query lib ev sch q w = (g, w1)" by (cases "generate_sql_query lib ev sch q w")
  show ?thesis
  proof (cases g)
    case (Inl e)
    with assms True g show ?thesis by (simp add: ask_question_obj)
  next
    case (Inr go)
    show ?thesis
    proof (cases go)
      case None
      with assms True g Inr show ?thesis by (simp add: ask_question_obj)
    next
      case (Some sql)
      obtain x w2 where x: "execute_query ev sql w1 = (x, w2)" by (cases "execute_query ev sql w1")
      have xw: "fst (execute_query ev sql w) = x"
        using execute_query_any_world [of ev sql w w1] x by simp
      show ?thesis
      proof (cases x)
        case (Inl e)
        with assms True g Inr Some x xw show ?thesis by (simp add: ask_question_obj)
      next
        case res: (Inr res)
        obtain i w3 where i: "generate_insights lib ev q res w2 = (i, w3)"
          by (cases "generate_insights lib ev q res w2")
        have iw: "fst (generate_insights lib ev q res w) = i"
          using generate_insights_result [of lib ev q res w] generate_insights_result [of lib ev q res w2] i
          by simp
        from assms True g Inr Some x xw res i iw show ?thesis
          by (simp add: ask_question_obj split: sum.splits)
      qed
    qed
  qed
qed

text \<open>
  C9 (as amended). Two runs on the same question in which the generator returns the
  same output, the executor returns the same output on the generated statement, and
  the completion service gives the same outcome on the insight request of a successful
  result, return responses that agree on the status and on the question, the
  statement, the results and the insights; only the timestamp may differ. The insight
  request is the same in both runs, since the summary and the prompts are functions of
  the question and the result. When \<^verbatim>\<open>jsonify\<close> raises on the result, it raises in both
  runs, and both return the same error response.
\<close>

theorem same_answer_up_to_timestamp:
  assumes question: "map_of kvs ''question'' = Some q"
    and generator: "fst (generate_sql_query lib ev1 sch q w1) = fst (generate_sql_query lib ev2 sch q w2)"
    and executor: "\<And>sql. fst (generate_sql_query lib ev1 sch q w1) = Inr (Some sql) \<Longrightarrow>
           fst (execute_query ev1 sql w1) = fst (execute_query ev2 sql w2)"
    and service: "\<And>sql r. fst (generate_sql_query lib ev1 sch q w1) = Inr (Some sql) \<Longrightarrow>
           fst (execute_query ev1 sql w1) = Inr r \<Longrightarrow> success r \<Longrightarrow>
           completion_create ev1 (insights_request lib q r) =
           completion_create ev2 (insights_request lib q r)"
  shows "\<exists>r1 r2. fst (ask_question lib ev1 sch (Inr (JObj kvs)) w1) = Inr r1 \<and>
                 fst (ask_question lib ev2 sch (Inr (JObj kvs)) w2) = Inr r2 \<and>
                 same_but_timestamp r1 r2"
proof -
  have refl: "same_but_timestamp r r" for r
    by (simp add: same_but_timestamp_def split: response_body.splits)
  obtain g where g1: "fst (generate_sql_query lib ev1 sch q w1) = Inr g"
    using generate_sql_query_returns by blast
  with generator have g2: "fst (generate_sql_query lib ev2 sch q w2) = Inr g" by simp
  show ?thesis
  proof (cases "json_truthy q \<and> (\<exists>sql. g = Some sql \<and> sql \<noteq> [])")
    case False
    then have "fst (ask_question lib ev1 sch (Inr (JObj kvs)) w1) =
               fst (ask_question lib ev2 sch (Inr (JObj kvs)) w2)"
      using g1 g2 by (cases g) (auto simp: fst_ask_question_obj [OF question])
    moreover have "\<exists>r. fst (ask_question lib ev1 sch (Inr (JObj kvs)) w1) = Inr r"
      by (simp add: fst_ask_question_obj [OF question])
    ultimately show ?thesis using refl by metis
  next
    case True
    then obtain sql where sql: "g = Some sql" "sql \<noteq> []" and t: "json_truthy q" by blast
    obtain r where r1: "fst (execute_query ev1 sql w1) = Inr r"
      using execute_query_returns by blast
    with executor g1 sql have r2: "fst (execute_query ev2 sql w2) = Inr r" by simp
    have same: "fst (generate_insights lib ev1 q r w1) = fst (generate_insights lib ev2 q r w2)"
    proof (cases "success r")
      case True
      with service g1 sql r1 have "completion_create ev1 (insights_request lib q r) =
           completion_create ev2 (insights_request lib q r)" by simp
      then show ?thesis by (simp add: generate_insights_result)
    next
      case False
      then show ?thesis by (simp add: generate_insights_result)
    qed
    obtain i where i1: "fst (generate_insights lib ev1 q r w1) = Inr i"
      by (simp add: generate_insights_result)
    with same have i2: "fst (generate_insights lib ev2 q r w2) = Inr i" by simp
    show ?thesis
      using g1 g2 sql t r1 r2 i1 i2
      by (simp add: fst_ask_question_obj [OF question] same_but_timestamp_def server_error_def)
  qed
qed


text \<open>Evaluations on \<open>env_orders\<close>.\<close>

lemma strip_example: "strip '' SELECT order_id, qty FROM OrderData '' = ''SELECT order_id, qty FROM OrderData''"
  by (simp add: strip_def py_isspace_def)

lemma orders_records:
  "to_dict_records orders_frame =
     [[(''order_id'', SInt 1), (''qty'', SInt 5)], [(''order_id'', SInt 2), (''qty'', SInt 7)]]"
  by (simp add: to_dict_records_def orders_frame_def dict_of_def)

text \<open>
  Two runs on the same question in which the generator and the executor return the
  same outputs, and the completion service words the insight differently: the
  insights of the two answers differ.
\<close>

theorem insights_differ_between_runs:
  "fst (generate_sql_query int_lib env_orders [] (JStr ''How many orders?'') world0) =
   fst (generate_sql_query int_lib env_orders_later [] (JStr ''How many orders?'') world0) \<and>
   fst (execute_query env_orders ''SELECT order_id, qty FROM OrderData'' world0) =
   fst (execute_query env_orders_later ''SELECT order_id, qty FROM OrderData'' world0) \<and>
   fst (ask_question int_lib env_orders []
         (Inr (JObj [(''question'', JStr ''How many orders?'')])) world0) =
     Inr \<lparr>status_code = 200,
          body = AnswerBody
            \<lparr>question = JStr ''How many orders?'',
             sql_query = ''SELECT order_id, qty FROM OrderData'',
             results = \<lparr>success = True,
                        data = [[(''order_id'', SInt 1), (''qty'', SInt 5)],
                                [(''order_id'', SInt 2), (''qty'', SInt 7)]],
                        columns = [''order_id'', ''qty''], row_count = 2, error = None\<rparr>,
             insights = ''Two orders were found.'',
             timestamp = ''2024-01-01T00:00:00''\<rparr>\<rparr> \<and>
   fst (ask_question int_lib env_orders_later []
         (Inr (JObj [(''question'', JStr ''How many orders?'')])) world0) =
     Inr \<lparr>status_code = 200,
          body = AnswerBody
            \<lparr>question = JStr ''How many orders?'',
             sql_query = ''SELECT order_id, qty FROM OrderData'',
             results = \<lparr>success = True,
                        data = [[(''order_id'', SInt 1), (''qty'', SInt 5)],
                                [(''order_id'', SInt 2), (''qty'', SInt 7)]],
                        columns = [''order_id'', ''qty''], row_count = 2, error = None\<rparr>,
             insights = ''There are 2 orders.'',
             timestamp = ''2024-01-01T00:00:09''\<rparr>\<rparr>"
proof -
  let ?q = "JStr ''How many orders?''"
  have m: "map_of [(''question'', ?q)] ''question'' = Some ?q" by simp
  have g1: "fst (generate_sql_query int_lib env_orders [] ?q world0) =
      Inr (Some ''SELECT order_id, qty FROM OrderData'')"
    by (simp add: generate_sql_query_result env_orders_def sql_request_parameters strip_example)
  have g2: "fst (generate_sql_query int_lib env_orders_later [] ?q world0) =
      Inr (Some ''SELECT order_id, qty FROM OrderData'')"
    by (simp add: generate_sql_query_result env_orders_later_def env_orders_def
        sql_request_parameters strip_example)
  let ?r = "\<lparr>success = True,
              data = [[(''order_id'', SInt 1), (''qty'', SInt 5)],
                      [(''order_id'', SInt 2), (''qty'', SInt 7)]],
              columns = [''order_id'', ''qty''], row_count = 2, error = None\<rparr>"
  have e1: "fst (execute_query env_orders ''SELECT order_id, qty FROM OrderData'' world0) = Inr ?r"
    by (simp add: execute_query_cases env_orders_def orders_records Let_def)
       (simp add: orders_frame_def)
  have e2: "fst (execute_query env_orders_later ''SELECT order_id, qty FROM OrderData'' world0) = Inr ?r"
    by (simp add: execute_query_cases env_orders_later_def env_orders_def orders_records Let_def)
       (simp add: orders_frame_def)
  have i1: "fst (generate_insights int_lib env_orders ?q ?r world0) = Inr ''Two orders were found.''"
    by (simp add: generate_insights_result env_orders_def insights_request_parameters
        strip_def py_isspace_def)
  have i2: "fst (generate_insights int_lib env_orders_later ?q ?r world0) = Inr ''There are 2 orders.''"
    by (simp add: generate_insights_result env_orders_later_def env_orders_def
        insights_request_parameters strip_def py_isspace_def)
  have t: "datetime_now env_orders = ''2024-01-01T00:00:00''"
    "datetime_now env_orders_later = ''2024-01-01T00:00:09''"
    by (simp_all add: env_orders_later_def env_orders_def)
  have ser: "serializable ?r" by (simp add: serializable_def)
  show ?thesis
    by (simp add: fst_ask_question_obj [OF m] g1 g2 e1 e2 i1 i2 t ser)
qed

theorem same_answer_up_to_timestamp_witness:
  "same_but_timestamp
     \<lparr>status_code = 200,
      body = AnswerBody
        \<lparr>question = JStr ''How many orders?'',
         sql_query = ''SELECT order_id, qty FROM OrderData'',
         results = \<lparr>success = True,
                    data = [[(''order_id'', SInt 1), (''qty'', SInt 5)],
                            [(''order_id'', SInt 2), (''qty'', SInt 7)]],
                    columns = [''order_id'', ''qty''], row_count = 2, error = None\<rparr>,
         insights = ''Two orders were found.'',
         timestamp = ''2024-01-01T00:00:00''\<rparr>\<rparr>
     \<lparr>status_code = 200,
      body = AnswerBody
        \<lparr>question = JStr ''How many orders?'',
         sql_query = ''SELECT order_id, qty FROM OrderData'',
         results = \<lparr>success = True,
                    data = [[(''order_id'', SInt 1), (''qty'', SInt 5)],
                            [(''order_id'', SInt 2), (''qty'', SInt 7)]],
                    columns = [''order_id'', ''qty''], row_count = 2, error = None\<rparr>,
         insights = ''Two orders were found.'',
         timestamp = ''2024-01-01T00:00:09''\<rparr>\<rparr> \<and>
   fst (ask_question int_lib env_orders []
         (Inr (JObj [(''question'', JStr ''How many orders?'')])) world0) =
     Inr \<lparr>status_code = 200,
      body = AnswerBody
        \<lparr>question = JStr ''How many orders?'',
         sql_query = ''SELECT order_id, qty FROM OrderData'',
         results = \<lparr>success = True,
                    data = [[(''order_id'', SInt 1), (''qty'', SInt 5)],
                            [(''order_id'', SInt 2), (''qty'', SInt 7)]],
                    columns = [''order_id'', ''qty''], row_count = 2, error = None\<rparr>,
         insights = ''Two orders were found.'',
         timestamp = ''2024-01-01T00:00:00''\<rparr>\<rparr> \<and>
   fst (ask_question int_lib env_orders_again []
         (Inr (JObj [(''question'', JStr ''How many orders?'')])) world0) =
     Inr \<lparr>status_code = 200,
      body = AnswerBody
        \<lparr>question = JStr ''How many orders?'',
         sql_query = ''SELECT order_id, qty FROM OrderData'',
         results = \<lparr>success = True,
                    data = [[(''order_id'', SInt 1), (''qty'', SInt 5)],
                            [(''order_id'', SInt 2), (''qty'', SInt 7)]],
                    columns = [''order_id'', ''qty''], row_count = 2, error = None\<rparr>,
         insights = ''Two orders were found.'',
         timestamp = ''2024-01-01T00:00:09''\<rparr>\<rparr>"
proof -
  let ?q = "JStr ''How many orders?''"
  let ?kvs = "[(''question'', ?q)]"
  have m: "map_of ?kvs ''question'' = Some ?q" by simp
  have c: "completion_create env_orders_again = completion_create env_orders"
    "read_sql_query env_orders_again = read_sql_query env_orders"
    "db_connect env_orders_again = db_connect env_orders"
    "db_close env_orders_again = db_close env_orders"
    by (simp_all add: env_orders_again_def)
  have g: "fst (generate_sql_query int_lib env_orders [] ?q world0) =
           fst (generate_sql_query int_lib env_orders_again [] ?q world0)"
    by (simp add: generate_sql_query_result c)
  have e: "fst (execute_query env_orders sql world0) = fst (execute_query env_orders_again sql world0)"
    for sql
    by (simp add: execute_query_cases env_orders_again_def env_orders_def Let_def)
  have s: "completion_create env_orders (insights_request int_lib ?q r) =
           completion_create env_orders_again (insights_request int_lib ?q r)" for r
    by (simp add: c)
  from same_answer_up_to_timestamp [of ?kvs ?q int_lib env_orders "[]" world0 env_orders_again world0,
      OF m g e s]
  obtain r1 r2 where r: "fst (ask_question int_lib env_orders [] (Inr (JObj ?kvs)) world0) = Inr r1"
      "fst (ask_question int_lib env_orders_again [] (Inr (JObj ?kvs)) world0) = Inr r2"
      "same_but_timestamp r1 r2"
    by blast
  have g1: "fst (generate_sql_query int_lib env_orders [] ?q world0) =
      Inr (Some ''SELECT order_id, qty FROM OrderData'')"
    by (simp add: generate_sql_query_result env_orders_def sql_request_parameters strip_example)
  let ?r = "\<lparr>success = True,
              data = [[(''order_id'', SInt 1), (''qty'', SInt 5)],
                      [(''order_id'', SInt 2), (''qty'', SInt 7)]],
              columns = [''order_id'', ''qty''], row_count = 2, error = None\<rparr>"
  have e1: "fst (execute_query env_orders ''SELECT order_id, qty FROM OrderData'' world0) = Inr ?r"
    by (simp add: execute_query_cases env_orders_def orders_records Let_def)
       (simp add: orders_frame_def)
  have i1: "fst (generate_insights int_lib env_orders ?q ?r world0) = Inr ''Two orders were found.''"
    by (simp add: generate_insights_result env_orders_def insights_request_parameters
        strip_def py_isspace_def)
  have i2: "fst (generate_insights int_lib env_orders_again ?q ?r world0) = Inr ''Two orders were found.''"
    using i1 by (simp add: generate_insights_result c)
  have t: "datetime_now env_orders = ''2024-01-01T00:00:00''"
    "datetime_now env_orders_again = ''2024-01-01T00:00:09''"
    by (simp_all add: env_orders_again_def env_orders_def)
  have ser: "serializable ?r" by (simp add: serializable_def)
  have a1: "fst (ask_question int_lib env_orders [] (Inr (JObj ?kvs)) world0) =
     Inr \<lparr>status_code = 200,
      body = AnswerBody
        \<lparr>question = ?q, sql_query = ''SELECT order_id, qty FROM OrderData'', results = ?r,
         insights = ''Two orders were found.'', timestamp = ''2024-01-01T00:00:00''\<rparr>\<rparr>"
    by (simp add: fst_ask_question_obj [OF m] g1 e1 i1 t ser)
  have a2: "fst (ask_question int_lib env_orders_again [] (Inr (JObj ?kvs)) world0) =
     Inr \<lparr>status_code = 200,
      body = AnswerBody
        \<lparr>question = ?q, sql_query = ''SELECT order_id, qty FROM OrderData'', results = ?r,
         insights = ''Two orders were found.'', timestamp = ''2024-01-01T00:00:09''\<rparr>\<rparr>"
  proof -
    have g2: "fst (generate_sql_query int_lib env_orders_again [] ?q world0) =
        Inr (Some ''SELECT order_id, qty FROM OrderData'')"
      using g g1 by simp
    have e2: "fst (execute_query env_orders_again ''SELECT order_id, qty FROM OrderData'' world0) =
        Inr ?r"
      using e [of "''SELECT order_id, qty FROM OrderData''"] e1 by simp
    show ?thesis by (simp add: fst_ask_question_obj [OF m] g2 e2 i2 t ser)
  qed
  from r a1 a2 show ?thesis by simp
qed

text \<open>
  A cell of bytes: the generator, the executor and the insight composer all succeed,
  \<^verbatim>\<open>jsonify\<close> raises inside the \<^verbatim>\<open>try\<close> block, and the handler answers 500.
\<close>

lemma ask_question_bytes_cell:
  "fst (ask_question int_lib env_blob []
         (Inr (JObj [(''question'', JStr ''Show the images'')])) world0) =
     Inr \<lparr>status_code = 500,
          body = ErrorBody ''Server error: Object of type bytes is not JSON serializable''\<rparr>"
proof -
  let ?q = "JStr ''Show the images''"
  have m: "map_of [(''question'', ?q)] ''question'' = Some ?q" by simp
  have g: "fst (generate_sql_query int_lib env_blob [] ?q world0) =
      Inr (Some ''SELECT order_id, qty FROM OrderData'')"
    by (simp add: generate_sql_query_result env_blob_def env_orders_def sql_request_parameters
        strip_example)
  let ?r = "\<lparr>success = True,
              data = [[(''order_id'', SInt 1), (''img'', SBytes ''PNG'')]],
              columns = [''order_id'', ''img''], row_count = Suc 0, error = None\<rparr>"
  have e: "fst (execute_query env_blob ''SELECT order_id, qty FROM OrderData'' world0) = Inr ?r"
    by (simp add: execute_query_cases env_blob_def env_orders_def Let_def to_dict_records_def
        dict_of_def)
  have i: "fst (generate_insights int_lib env_blob ?q ?r world0) = Inr ''Two orders were found.''"
    by (simp add: generate_insights_result env_blob_def env_orders_def insights_request_parameters
        strip_def py_isspace_def)
  have ser: "\<not> serializable ?r" by (simp add: serializable_def)
  show ?thesis
    by (simp add: fst_ask_question_obj [OF m] g e i ser server_error_def bytes_type_error_def)
qed

section \<open>The Result Summarizer and the Prompt Composer\<close>

text \<open>The format \<^verbatim>\<open>:.2f\<close> rounds to the nearest hundredth.\<close>

lemma round_half_even_error: "\<bar>of_int (round_half_even x) - x\<bar> \<le> 1 / 2"
proof -
  have "of_int \<lfloor>x\<rfloor> \<le> x" "x < of_int \<lfloor>x\<rfloor> + 1" by linarith+
  then show ?thesis
    unfolding round_half_even_def Let_def
    by (simp only: abs_le_iff split: if_splits) (auto; linarith)
qed

lemma round_half_even_nonneg: "0 \<le> x \<Longrightarrow> 0 \<le> round_half_even x"
proof -
  assume "0 \<le> x"
  then have "0 \<le> \<lfloor>x\<rfloor>" by simp
  then show ?thesis unfolding round_half_even_def Let_def by (simp split: if_splits)
qed

lemma format_2f_finite:
  "\<exists>h. format_2f (Finite s m) =
          (if s then ''-'' else []) @ show_nat (h div 100) @ ''.'' @
          [digit_char (h mod 100 div 10), digit_char (h mod 10)] \<and>
        \<bar>of_nat h / 100 - \<bar>m\<bar>\<bar> \<le> 1 / 200"
proof -
  define h where "h = nat (round_half_even (100 * \<bar>m\<bar>))"
  have "0 \<le> round_half_even (100 * \<bar>m\<bar>)" by (rule round_half_even_nonneg) simp
  then have "(of_nat h :: rat) = of_int (round_half_even (100 * \<bar>m\<bar>))" by (simp add: h_def)
  moreover have "\<bar>of_int (round_half_even (100 * \<bar>m\<bar>)) - 100 * \<bar>m\<bar>\<bar> \<le> 1 / 2"
    by (rule round_half_even_error)
  ultimately have a: "\<bar>of_nat h - 100 * \<bar>m\<bar>\<bar> \<le> 1 / 2" by simp
  have "of_nat h / 100 - \<bar>m\<bar> = (of_nat h - 100 * \<bar>m\<bar>) / 100"
    by (simp add: diff_divide_distrib)
  then have "\<bar>of_nat h / 100 - \<bar>m\<bar>\<bar> = \<bar>of_nat h - 100 * \<bar>m\<bar>\<bar> / 100"
    by (simp only: abs_divide)
  with a have b: "\<bar>of_nat h / 100 - \<bar>m\<bar>\<bar> \<le> 1 / 200" by linarith
  have c: "format_2f (Finite s m) =
          (if s then ''-'' else []) @ show_nat (h div 100) @ ''.'' @
          [digit_char (h mod 100 div 10), digit_char (h mod 10)]"
    unfolding format_2f.simps fixed2_def h_def by simp
  from b c show ?thesis by blast
qed

text \<open>When every row has the keys of the first row, the frame has them as its columns.\<close>

lemma first_seen_append:
  "set ys \<subseteq> set xs \<Longrightarrow> rev (remdups (rev (xs @ ys))) = rev (remdups (rev xs))"
  by (simp add: remdups_append)

lemma frame_columns_same_keys:
  assumes "list_all (\<lambda>row. keys row = keys row0) rows" and "distinct (keys row0)"
  shows "frame_columns (row0 # rows) = keys row0"
proof -
  have "set (concat (map keys rows)) \<subseteq> set (keys row0)"
    using assms(1) by (auto simp: list_all_iff)
  then have "rev (remdups (rev (keys row0 @ concat (map keys rows)))) = rev (remdups (rev (keys row0)))"
    by (rule first_seen_append)
  with assms(2) show ?thesis by (simp add: frame_columns_def distinct_remdups_id)
qed



text \<open>The loops that append to a string, as concatenations.\<close>

lemma foldl_summarize_column:
  "foldl (summarize_column lib rows) s cols = s @ concat (map (summarize_column lib rows []) cols)"
  by (induction cols arbitrary: s) (simp_all add: summarize_column_def)

lemma foldl_format_column:
  "foldl (format_column lib) t cols = t @ concat (map (format_column lib []) cols)"
  by (induction cols arbitrary: t) (simp_all add: format_column_def)

lemma format_table_append: "format_table lib t item = t @ format_table lib [] item"
  by (simp add: format_table_def Let_def foldl_format_column [of lib "t @ _"]
      foldl_format_column [of lib "backslash_n @ _"])

lemma foldl_format_table:
  "foldl (format_table lib) t sch = t @ concat (map (format_table lib []) sch)"
proof (induction sch arbitrary: t)
  case Nil
  show ?case by simp
next
  case (Cons item sch)
  show ?case by (simp add: Cons.IH format_table_append [of lib t item])
qed

lemma format_schema_concat:
  "format_schema_for_prompt lib sch = concat (map (format_table lib []) sch)"
  by (simp add: format_schema_for_prompt_def foldl_format_table)

text \<open>\<^verbatim>\<open>str.join\<close>, and the decimal digits of a count.\<close>

lemma join_concat: "join sep (x # xs) = x @ concat (map (\<lambda>y. sep @ y) xs)"
  by (induction xs arbitrary: x) simp_all

lemma of_char_digit: "d < 10 \<Longrightarrow> (of_char (digit_char d) :: nat) = 48 + d"
  by (simp add: digit_char_def)

lemma show_nat_not_Nil: "show_nat n \<noteq> []"
  by (subst show_nat.simps) simp

lemma show_nat_digits:
  "list_all (\<lambda>c. 48 \<le> (of_char c :: nat) \<and> (of_char c :: nat) \<le> 57) (show_nat n)"
proof (induction n rule: show_nat.induct)
  case (1 n)
  show ?case
  proof (cases "n < 10")
    case True
    then show ?thesis by (subst show_nat.simps) (simp add: of_char_digit)
  next
    case False
    have "n mod 10 < 10" by simp
    then have "(of_char (digit_char (n mod 10)) :: nat) = 48 + n mod 10" by (rule of_char_digit)
    with False 1 show ?thesis by (subst show_nat.simps) simp
  qed
qed

lemma show_nat_value:
  "foldl (\<lambda>a c. 10 * a + (of_char c - 48)) 0 (show_nat n) = n"
proof (induction n rule: show_nat.induct)
  case (1 n)
  show ?case
  proof (cases "n < 10")
    case True
    then show ?thesis by (subst show_nat.simps) (simp add: of_char_digit)
  next
    case False
    have "n mod 10 < 10" by simp
    then have "(of_char (digit_char (n mod 10)) :: nat) = 48 + n mod 10" by (rule of_char_digit)
    with False 1 show ?thesis by (subst show_nat.simps) simp
  qed
qed

lemma show_nat_no_leading_zero: "n \<noteq> 0 \<Longrightarrow> hd (show_nat n) \<noteq> CHR ''0''"
proof (induction n rule: show_nat.induct)
  case (1 n)
  show ?case
  proof (cases "n < 10")
    case True
    with 1(2) have "(of_char (digit_char n) :: nat) \<noteq> 48" by (simp add: of_char_digit)
    then have "digit_char n \<noteq> CHR ''0''" by auto
    with True show ?thesis by (subst show_nat.simps) simp
  next
    case False
    then have "n div 10 \<noteq> 0" by simp
    with 1(1) False have "hd (show_nat (n div 10)) \<noteq> CHR ''0''" by simp
    with False show ?thesis by (subst show_nat.simps) (simp add: show_nat_not_Nil)
  qed
qed


text \<open>
  The summary of a non-empty result, written out from the rows: the cells of a column
  are read from every row, the columns are the keys in the order in which the rows
  first show them.
\<close>

lemma summarize_data_rows:
  assumes "rows \<noteq> []"
  shows "summarize_data lib rows =
     ''Dataset contains '' @ show_nat (length rows) @ '' records'' @ backslash_n @
     ''Columns: '' @ join '', '' (map fst (hd rows)) @ backslash_n @
     (if take 3 (filter (\<lambda>col. number_dtype lib
                (map (\<lambda>row. case map_of row col of None \<Rightarrow> SFloat NaN | Some v \<Rightarrow> v) rows))
            (rev (remdups (rev (concat (map (map fst) rows)))))) = []
      then []
      else backslash_n @ ''Numeric summaries:'' @ backslash_n @
        concat (map (\<lambda>col. col @
            '': min='' @ py_str lib (series_min lib
               (map (\<lambda>row. case map_of row col of None \<Rightarrow> SFloat NaN | Some v \<Rightarrow> v) rows)) @
            '', max='' @ py_str lib (series_max lib
               (map (\<lambda>row. case map_of row col of None \<Rightarrow> SFloat NaN | Some v \<Rightarrow> v) rows)) @
            '', avg='' @ format_2f (series_mean lib
               (map (\<lambda>row. case map_of row col of None \<Rightarrow> SFloat NaN | Some v \<Rightarrow> v) rows)) @
            backslash_n)
          (take 3 (filter (\<lambda>col. number_dtype lib
                (map (\<lambda>row. case map_of row col of None \<Rightarrow> SFloat NaN | Some v \<Rightarrow> v) rows))
            (rev (remdups (rev (concat (map (map fst) rows)))))))))"
proof -
  have sc: "summarize_column lib rows [] =
      (\<lambda>col. col @
            '': min='' @ py_str lib (series_min lib
               (map (\<lambda>row. case map_of row col of None \<Rightarrow> SFloat NaN | Some v \<Rightarrow> v) rows)) @
            '', max='' @ py_str lib (series_max lib
               (map (\<lambda>row. case map_of row col of None \<Rightarrow> SFloat NaN | Some v \<Rightarrow> v) rows)) @
            '', avg='' @ format_2f (series_mean lib
               (map (\<lambda>row. case map_of row col of None \<Rightarrow> SFloat NaN | Some v \<Rightarrow> v) rows)) @
            backslash_n)"
    by (simp add: summarize_column_def column_values_def fun_eq_iff)
  have nc: "numeric_columns lib rows =
      filter (\<lambda>col. number_dtype lib
                (map (\<lambda>row. case map_of row col of None \<Rightarrow> SFloat NaN | Some v \<Rightarrow> v) rows))
            (rev (remdups (rev (concat (map (map fst) rows)))))"
  proof -
    have "(keys :: (string, scalar) dict \<Rightarrow> string list) = map fst"
      by (simp add: fun_eq_iff keys_def)
    then show ?thesis
      by (simp add: numeric_columns_def frame_columns_def column_values_def)
  qed
  from assms obtain row0 rest where r: "rows = row0 # rest" by (cases rows) auto
  have "summarize_data lib rows =
     ''Dataset contains '' @ show_nat (length rows) @ '' records'' @ backslash_n @
     ''Columns: '' @ join '', '' (map fst (hd rows)) @ backslash_n @
     (if take 3 (numeric_columns lib rows) = [] then []
      else backslash_n @ ''Numeric summaries:'' @ backslash_n @
        concat (map (summarize_column lib rows []) (take 3 (numeric_columns lib rows))))"
    unfolding r by (simp add: summarize_data_def Let_def foldl_summarize_column keys_def)
  then show ?thesis unfolding sc nc .
qed

text \<open>When the rows share the keys of the first row, every cell is found in its row.\<close>

lemma cells_present:
  assumes "list_all (\<lambda>row. map fst row = map fst (hd rows)) rows" and "col \<in> set (map fst (hd rows))"
  shows "map (\<lambda>row. case map_of row col of None \<Rightarrow> SFloat NaN | Some v \<Rightarrow> v) rows =
         map (\<lambda>row. the (map_of row col)) rows"
proof (rule map_cong [OF refl])
  fix row assume "row \<in> set rows"
  with assms(1) have "map fst row = map fst (hd rows)" by (simp add: list_all_iff)
  with assms(2) have "col \<in> fst ` set row" by (metis set_map)
  then have "map_of row col \<noteq> None" by (simp add: map_of_eq_None_iff)
  then show "(case map_of row col of None \<Rightarrow> SFloat NaN | Some v \<Rightarrow> v) = the (map_of row col)"
    by (cases "map_of row col") simp_all
qed

lemma first_row_columns:
  fixes rows :: "(string, scalar) dict list"
  assumes "rows \<noteq> []" and "list_all (\<lambda>row. map fst row = map fst (hd rows)) rows"
    and "distinct (map fst (hd rows))"
  shows "rev (remdups (rev (concat (map (map fst) rows)))) = map fst (hd rows)"
proof -
  from assms(1) obtain row0 rest where r: "rows = row0 # rest" by (cases rows) auto
  with assms(2) have "list_all (\<lambda>row. keys row = keys row0) rest" by (simp add: keys_def)
  moreover from assms(3) r have "distinct (keys row0)" by (simp add: keys_def)
  ultimately have "frame_columns (row0 # rest) = keys row0" by (rule frame_columns_same_keys)
  moreover have "(keys :: (string, scalar) dict \<Rightarrow> string list) = map fst"
    by (simp add: fun_eq_iff keys_def)
  ultimately show ?thesis by (simp add: frame_columns_def r)
qed


text \<open>
  C5. On no rows the summary is the fixed marker. On rows it is the row count in
  decimal, the keys of the first row joined by a comma and a space, and, when some
  column is numeric, one entry for each of the first three numeric columns and for no
  other. The columns are the keys of the rows in the order in which they are first
  seen, which is the key list of the first row when the rows share it; a column is
  numeric when its cells, one from every row, have a number dtype. An entry gives the
  minimum, the maximum and the mean of those cells, the mean in the format
  \<^verbatim>\<open>:.2f\<close>: a sign, the integer part, a point and two digits, within half a
  hundredth of the mean.
\<close>

theorem summarize_data_digest:
  fixes rows :: "(string, scalar) dict list"
  shows
  "summarize_data lib [] = ''No data returned'' \<and>
   (rows \<noteq> [] \<longrightarrow>
      (let cells = (\<lambda>col. map (\<lambda>row. case map_of row col of None \<Rightarrow> SFloat NaN | Some v \<Rightarrow> v) rows);
           cols = rev (remdups (rev (concat (map (map fst) rows))));
           shown = take 3 (filter (\<lambda>col. number_dtype lib (cells col)) cols)
       in summarize_data lib rows =
            ''Dataset contains '' @ show_nat (length rows) @ '' records'' @ backslash_n @
            ''Columns: '' @ join '', '' (map fst (hd rows)) @ backslash_n @
            (if shown = [] then []
             else backslash_n @ ''Numeric summaries:'' @ backslash_n @
               concat (map (\<lambda>col. col @
                   '': min='' @ py_str lib (series_min lib (cells col)) @
                   '', max='' @ py_str lib (series_max lib (cells col)) @
                   '', avg='' @ format_2f (series_mean lib (cells col)) @ backslash_n) shown)) \<and>
          length shown \<le> 3 \<and>
          (list_all (\<lambda>row. map fst row = map fst (hd rows)) rows \<and> distinct (map fst (hd rows)) \<longrightarrow>
             cols = map fst (hd rows) \<and>
             list_all (\<lambda>col. cells col = map (\<lambda>row. the (map_of row col)) rows) cols))) \<and>
   join sep (x # xs) = x @ concat (map (\<lambda>y. sep @ y) xs) \<and>
   show_nat 0 = ''0'' \<and>
   foldl (\<lambda>a c. 10 * a + (of_char c - 48)) 0 (show_nat n) = n \<and>
   list_all (\<lambda>c. 48 \<le> (of_char c :: nat) \<and> (of_char c :: nat) \<le> 57) (show_nat n) \<and>
   (n \<noteq> 0 \<longrightarrow> hd (show_nat n) \<noteq> CHR ''0'') \<and>
   py_str lib (SInt i) = (if i < 0 then CHR ''-'' # show_nat (nat (- i)) else show_nat (nat i)) \<and>
   format_2f NaN = ''nan'' \<and>
   (\<exists>h. format_2f (Finite s m) =
          (if s then ''-'' else []) @ show_nat (h div 100) @ ''.'' @
          [digit_char (h mod 100 div 10), digit_char (h mod 10)] \<and>
        \<bar>of_nat h / 100 - \<bar>m\<bar>\<bar> \<le> 1 / 200)"
proof (intro conjI impI)
  show "summarize_data lib [] = ''No data returned''" by (simp add: summarize_data_def)
  show "join sep (x # xs) = x @ concat (map (\<lambda>y. sep @ y) xs)" by (rule join_concat)
  show "show_nat 0 = ''0''" by code_simp
  show "foldl (\<lambda>a c. 10 * a + (of_char c - 48)) 0 (show_nat n) = n" by (rule show_nat_value)
  show "list_all (\<lambda>c. 48 \<le> (of_char c :: nat) \<and> (of_char c :: nat) \<le> 57) (show_nat n)"
    by (rule show_nat_digits)
  show "hd (show_nat n) \<noteq> CHR ''0''" if "n \<noteq> 0" using that by (rule show_nat_no_leading_zero)
  show "py_str lib (SInt i) = (if i < 0 then CHR ''-'' # show_nat (nat (- i)) else show_nat (nat i))"
    by (simp add: show_int_def)
  show "format_2f NaN = ''nan''" by simp
  show "\<exists>h. format_2f (Finite s m) =
          (if s then ''-'' else []) @ show_nat (h div 100) @ ''.'' @
          [digit_char (h mod 100 div 10), digit_char (h mod 10)] \<and>
        \<bar>of_nat h / 100 - \<bar>m\<bar>\<bar> \<le> 1 / 200"
    by (rule format_2f_finite)
  show "let cells = (\<lambda>col. map (\<lambda>row. case map_of row col of None \<Rightarrow> SFloat NaN | Some v \<Rightarrow> v) rows);
           cols = rev (remdups (rev (concat (map (map fst) rows))));
           shown = take 3 (filter (\<lambda>col. number_dtype lib (cells col)) cols)
       in summarize_data lib rows =
            ''Dataset contains '' @ show_nat (length rows) @ '' records'' @ backslash_n @
            ''Columns: '' @ join '', '' (map fst (hd rows)) @ backslash_n @
            (if shown = [] then []
             else backslash_n @ ''Numeric summaries:'' @ backslash_n @
               concat (map (\<lambda>col. col @
                   '': min='' @ py_str lib (series_min lib (cells col)) @
                   '', max='' @ py_str lib (series_max lib (cells col)) @
                   '', avg='' @ format_2f (series_mean lib (cells col)) @ backslash_n) shown)) \<and>
          length shown \<le> 3 \<and>
          (list_all (\<lambda>row. map fst row = map fst (hd rows)) rows \<and> distinct (map fst (hd rows)) \<longrightarrow>
             cols = map fst (hd rows) \<and>
             list_all (\<lambda>col. cells col = map (\<lambda>row. the (map_of row col)) rows) cols)"
    if ne: "rows \<noteq> []"
  proof -
    have shared: "rev (remdups (rev (concat (map (map fst) rows)))) = map fst (hd rows) \<and>
        list_all (\<lambda>col. map (\<lambda>row. case map_of row col of None \<Rightarrow> SFloat NaN | Some v \<Rightarrow> v) rows =
                        map (\<lambda>row. the (map_of row col)) rows)
          (rev (remdups (rev (concat (map (map fst) rows)))))"
      if a: "list_all (\<lambda>row. map fst row = map fst (hd rows)) rows" and d: "distinct (map fst (hd rows))"
    proof -
      have c: "rev (remdups (rev (concat (map (map fst) rows)))) = map fst (hd rows)"
        using ne a d by (rule first_row_columns)
      have "list_all (\<lambda>col. map (\<lambda>row. case map_of row col of None \<Rightarrow> SFloat NaN | Some v \<Rightarrow> v) rows =
                        map (\<lambda>row. the (map_of row col)) rows) (map fst (hd rows))"
        unfolding list_all_iff using cells_present [OF a] by blast
      with c show ?thesis by simp
    qed
    let ?cells = "\<lambda>col. map (\<lambda>row. case map_of row col of None \<Rightarrow> SFloat NaN | Some v \<Rightarrow> v) rows"
    let ?cols = "rev (remdups (rev (concat (map (map fst) rows))))"
    let ?shown = "take 3 (filter (\<lambda>col. number_dtype lib (?cells col)) ?cols)"
    have e: "summarize_data lib rows =
            ''Dataset contains '' @ show_nat (length rows) @ '' records'' @ backslash_n @
            ''Columns: '' @ join '', '' (map fst (hd rows)) @ backslash_n @
            (if ?shown = [] then []
             else backslash_n @ ''Numeric summaries:'' @ backslash_n @
               concat (map (\<lambda>col. col @
                   '': min='' @ py_str lib (series_min lib (?cells col)) @
                   '', max='' @ py_str lib (series_max lib (?cells col)) @
                   '', avg='' @ format_2f (series_mean lib (?cells col)) @ backslash_n) ?shown))"
      by (rule summarize_data_rows [OF ne])
    have l: "length ?shown \<le> 3" by simp
    have sh: "list_all (\<lambda>row. map fst row = map fst (hd rows)) rows \<and> distinct (map fst (hd rows)) \<longrightarrow>
             ?cols = map fst (hd rows) \<and>
             list_all (\<lambda>col. ?cells col = map (\<lambda>row. the (map_of row col)) rows) ?cols"
      using shared by blast
    show ?thesis unfolding Let_def by (rule conjI [OF e conjI [OF l sh]])
  qed
qed






theorem summarize_data_digest_witness:
  "five_rows \<noteq> [] \<and>
   list_all (\<lambda>row. map fst row = map fst (hd five_rows)) five_rows \<and>
   distinct (map fst (hd five_rows)) \<and>
   summarize_data int_lib five_rows =
     ''Dataset contains 5 records'' @ backslash_n @
     ''Columns: id, name, a, b, c'' @ backslash_n @
     backslash_n @ ''Numeric summaries:'' @ backslash_n @
     ''id: min=1, max=5, avg=3.00'' @ backslash_n @
     ''a: min=1, max=100, avg=60.60'' @ backslash_n @
     ''b: min=10, max=25, avg=13.00'' @ backslash_n \<and>
   filter (\<lambda>col. number_dtype int_lib (map (\<lambda>row. the (map_of row col)) five_rows))
     (map fst (hd five_rows)) = [''id'', ''a'', ''b'', ''c'']"
proof -
  let ?cells = "\<lambda>col. map (\<lambda>row. case map_of row col of None \<Rightarrow> SFloat NaN | Some v \<Rightarrow> v) five_rows"
  let ?cols = "rev (remdups (rev (concat (map (map fst) five_rows))))"
  let ?shown = "take 3 (filter (\<lambda>col. number_dtype int_lib (?cells col)) ?cols)"
  have ne: "five_rows \<noteq> []" by (simp add: five_rows_def)
  have same: "list_all (\<lambda>row. map fst row = map fst (hd five_rows)) five_rows"
    and dist: "distinct (map fst (hd five_rows))"
    by code_simp+
  have num: "filter (\<lambda>col. number_dtype int_lib (map (\<lambda>row. the (map_of row col)) five_rows))
     (map fst (hd five_rows)) = [''id'', ''a'', ''b'', ''c'']"
    by code_simp
  have shown: "?shown = [''id'', ''a'', ''b'']" by code_simp
  have cells: "?cells ''id'' = [SInt 1, SInt 2, SInt 3, SInt 4, SInt 5]"
    "?cells ''a'' = [SInt 1, SInt 2, SInt 100, SInt 100, SInt 100]"
    "?cells ''b'' = [SInt 10, SInt 25, SInt 10, SInt 10, SInt 10]"
    by code_simp+
  have hdr: "show_nat (length five_rows) = ''5''"
    "join '', '' (map fst (hd five_rows)) = ''id, name, a, b, c''"
    by code_simp+
  have stats:
    "py_str int_lib (series_min int_lib [SInt 1, SInt 2, SInt 3, SInt 4, SInt 5]) = ''1''"
    "py_str int_lib (series_max int_lib [SInt 1, SInt 2, SInt 3, SInt 4, SInt 5]) = ''5''"
    "format_2f (series_mean int_lib [SInt 1, SInt 2, SInt 3, SInt 4, SInt 5]) = ''3.00''"
    "py_str int_lib (series_min int_lib [SInt 1, SInt 2, SInt 100, SInt 100, SInt 100]) = ''1''"
    "py_str int_lib (series_max int_lib [SInt 1, SInt 2, SInt 100, SInt 100, SInt 100]) = ''100''"
    "format_2f (series_mean int_lib [SInt 1, SInt 2, SInt 100, SInt 100, SInt 100]) = ''60.60''"
    "py_str int_lib (series_min int_lib [SInt 10, SInt 25, SInt 10, SInt 10, SInt 10]) = ''10''"
    "py_str int_lib (series_max int_lib [SInt 10, SInt 25, SInt 10, SInt 10, SInt 10]) = ''25''"
    "format_2f (series_mean int_lib [SInt 10, SInt 25, SInt 10, SInt 10, SInt 10]) = ''13.00''"
    by code_simp+
  have d: "summarize_data int_lib five_rows =
            ''Dataset contains '' @ show_nat (length five_rows) @ '' records'' @ backslash_n @
            ''Columns: '' @ join '', '' (map fst (hd five_rows)) @ backslash_n @
            (if ?shown = [] then []
             else backslash_n @ ''Numeric summaries:'' @ backslash_n @
               concat (map (\<lambda>col. col @
                   '': min='' @ py_str int_lib (series_min int_lib (?cells col)) @
                   '', max='' @ py_str int_lib (series_max int_lib (?cells col)) @
                   '', avg='' @ format_2f (series_mean int_lib (?cells col)) @ backslash_n) ?shown))"
    using summarize_data_digest [of int_lib five_rows, THEN conjunct2, THEN conjunct1, THEN mp, OF ne]
    unfolding Let_def by (rule conjunct1)
  have "summarize_data int_lib five_rows =
     ''Dataset contains 5 records'' @ backslash_n @
     ''Columns: id, name, a, b, c'' @ backslash_n @
     backslash_n @ ''Numeric summaries:'' @ backslash_n @
     ''id: min=1, max=5, avg=3.00'' @ backslash_n @
     ''a: min=1, max=100, avg=60.60'' @ backslash_n @
     ''b: min=10, max=25, avg=13.00'' @ backslash_n"
    unfolding d shown by (simp add: cells hdr stats del: show_nat.simps)
  with ne same dist num show ?thesis by (intro conjI)
qed

section \<open>The Schema Introspector\<close>

text \<open>Reading the fields of the catalog rows and of the metadata rows.\<close>

lemma index_cases:
  "index kind xs i w =
     (if i < length xs then (Inr (xs ! i), w)
      else (Inl (PyException ''IndexError'' (kind @ '' index out of range'')), w))"
  by (simp add: index_def ret_def raise_def)

lemma column_of_cases:
  "column_of col w =
     (if 3 < length col
      then (Inr \<lparr>col_name = col ! 1, col_type = col ! 2, nullable = (\<not> truthy (col ! 3))\<rparr>, w)
      else (Inl (PyException ''IndexError'' ''tuple index out of range''), w))"
  by (simp add: column_of_def bind_def index_cases ret_def)

lemma map_py_column_of:
  "map_py column_of cols w =
     (if list_all (\<lambda>c. 3 < length c) cols
      then (Inr (map (\<lambda>c. \<lparr>col_name = c ! 1, col_type = c ! 2,
                             nullable = (\<not> truthy (c ! 3))\<rparr>) cols), w)
      else (Inl (PyException ''IndexError'' ''tuple index out of range''), w))"
  by (induction cols) (simp_all add: ret_def bind_def column_of_cases)

lemma map_py_index_0:
  "map_py (\<lambda>row. index ''tuple'' row 0) rows w =
     (if list_all (\<lambda>r. r \<noteq> []) rows then (Inr (map hd rows), w)
      else (Inl (PyException ''IndexError'' ''tuple index out of range''), w))"
  by (induction rows) (auto simp: ret_def bind_def index_cases hd_conv_nth)

text \<open>
  One table: when both queries answer and every metadata row has its four fields, the
  entry is what the store reports; otherwise the loop body raises.
\<close>

lemma analyze_table_readable:
  assumes "table_readable lib ev table"
  shows "fst (analyze_table lib ev table w) = Inr (reported lib ev table)"
  using assms
  by (auto simp: analyze_table_def cursor_execute_def bind_def emit_def lift_def ret_def
      map_py_column_of table_readable_def reported_def split: sum.splits)

lemma analyze_table_unreadable:
  assumes "\<not> table_readable lib ev table"
  shows "isl (fst (analyze_table lib ev table w))"
  using assms
  by (auto simp: analyze_table_def cursor_execute_def bind_def emit_def lift_def ret_def
      map_py_column_of table_readable_def split: sum.splits)

text \<open>The loop over the tables of the catalog.\<close>

lemma analyze_tables_readable:
  assumes "list_all (table_readable lib ev) tables"
  shows "fst (analyze_tables lib ev tables sch w) =
         Inr (foldl (\<lambda>d t. dict_set d t (reported lib ev t)) sch tables)"
  using assms
proof (induction tables arbitrary: sch w)
  case Nil
  show ?case by (simp add: ret_def)
next
  case (Cons table tables)
  obtain x w1 where x: "analyze_table lib ev table w = (x, w1)"
    by (cases "analyze_table lib ev table w")
  from Cons.prems have "fst (analyze_table lib ev table w) = Inr (reported lib ev table)"
    by (simp add: analyze_table_readable)
  with x have "x = Inr (reported lib ev table)" by simp
  with x Cons.prems Cons.IH [of "dict_set sch table (reported lib ev table)" w1]
  show ?case by (simp add: bind_def)
qed

lemma analyze_tables_unreadable:
  assumes "\<not> list_all (table_readable lib ev) tables"
  shows "isl (fst (analyze_tables lib ev tables sch w))"
  using assms
proof (induction tables arbitrary: sch w)
  case Nil
  then show ?case by simp
next
  case (Cons table tables)
  obtain x w1 where x: "analyze_table lib ev table w = (x, w1)"
    by (cases "analyze_table lib ev table w")
  show ?case
  proof (cases "table_readable lib ev table")
    case True
    then have "fst (analyze_table lib ev table w) = Inr (reported lib ev table)"
      by (rule analyze_table_readable)
    with x have "x = Inr (reported lib ev table)" by simp
    moreover from True Cons.prems have "\<not> list_all (table_readable lib ev) tables" by simp
    ultimately show ?thesis
      using x Cons.IH [of "dict_set sch table (reported lib ev table)" w1]
      by (simp add: bind_def)
  next
    case False
    then have "isl (fst (analyze_table lib ev table w))" by (rule analyze_table_unreadable)
    with x obtain e where "x = Inl e" by (cases x) simp_all
    with x show ?thesis by (simp add: bind_def)
  qed
qed

lemma foldl_dict_set_map:
  "foldl (\<lambda>d t. dict_set d t (f t)) sch ts =
   foldl (\<lambda>d (k, v). dict_set d k v) sch (map (\<lambda>t. (t, f t)) ts)"
  by (induction ts arbitrary: sch) simp_all

text \<open>The \<^verbatim>\<open>try\<close> block and its handler.\<close>

lemma analyze_schema_cases:
  "fst (analyze_schema lib ev w) =
     (case fst (analyze_schema_body lib ev w) of Inl e \<Rightarrow> Inr [] | Inr s \<Rightarrow> Inr s)"
  by (simp add: analyze_schema_def try_except_def bind_def emit_def ret_def
      split: prod.splits sum.splits)

lemma analyze_schema_body_readable:
  assumes "store_readable lib ev" and "db_execute ev tables_sql = Inr rows"
  shows "fst (analyze_schema_body lib ev w) =
         Inr (dict_of (map (\<lambda>t. (t, reported lib ev t)) (map hd rows)))"
proof -
  from assms have c: "db_connect ev = None" "db_close ev = None"
    "list_all (\<lambda>r. r \<noteq> []) rows" "list_all (table_readable lib ev) (map hd rows)"
    by (simp_all add: store_readable_def list_all_iff)
  define w2 where "w2 = w\<lparr>open_conns := Suc (open_conns w), trace := trace w @ [Sql tables_sql]\<rparr>"
  obtain x w3 where x: "analyze_tables lib ev (map hd rows) [] w2 = (x, w3)"
    by (cases "analyze_tables lib ev (map hd rows) [] w2")
  from c(4) have "fst (analyze_tables lib ev (map hd rows) [] w2) =
      Inr (foldl (\<lambda>d t. dict_set d t (reported lib ev t)) [] (map hd rows))"
    by (rule analyze_tables_readable)
  with x have "x = Inr (dict_of (map (\<lambda>t. (t, reported lib ev t)) (map hd rows)))"
    by (simp add: foldl_dict_set_map dict_of_def)
  with x c assms(2) show ?thesis
    by (simp add: analyze_schema_body_def bind_def sqlite3_connect_def cursor_execute_def
        emit_def lift_def ret_def conn_close_def map_py_index_0 w2_def)
qed

lemma analyze_schema_body_unreadable:
  assumes "\<not> store_readable lib ev"
  shows "isl (fst (analyze_schema_body lib ev w))"
proof (cases "db_connect ev")
  case (Some e)
  then show ?thesis by (simp add: analyze_schema_body_def bind_def sqlite3_connect_def)
next
  case None
  show ?thesis
  proof (cases "db_execute ev tables_sql")
    case (Inl e)
    with None show ?thesis
      by (simp add: analyze_schema_body_def bind_def sqlite3_connect_def cursor_execute_def
          emit_def lift_def)
  next
    case (Inr rows)
    show ?thesis
    proof (cases "list_all (\<lambda>r. r \<noteq> []) rows")
      case False
      with None Inr show ?thesis
        by (simp add: analyze_schema_body_def bind_def sqlite3_connect_def cursor_execute_def
            emit_def lift_def map_py_index_0)
    next
      case True
      define w2 where
        "w2 = w\<lparr>open_conns := Suc (open_conns w), trace := trace w @ [Sql tables_sql]\<rparr>"
      obtain x w3 where x: "analyze_tables lib ev (map hd rows) [] w2 = (x, w3)"
        by (cases "analyze_tables lib ev (map hd rows) [] w2")
      show ?thesis
      proof (cases "list_all (table_readable lib ev) (map hd rows)")
        case False
        then have "isl (fst (analyze_tables lib ev (map hd rows) [] w2))"
          by (rule analyze_tables_unreadable)
        with x obtain e where "x = Inl e" by (cases x) simp_all
        with x None Inr True show ?thesis
          by (simp add: analyze_schema_body_def bind_def sqlite3_connect_def cursor_execute_def
              emit_def lift_def map_py_index_0 w2_def)
      next
        case readable: True
        with assms None Inr True obtain e where e: "db_close ev = Some e"
          by (cases "db_close ev") (auto simp: store_readable_def list_all_iff)
        from readable have "fst (analyze_tables lib ev (map hd rows) [] w2) =
            Inr (foldl (\<lambda>d t. dict_set d t (reported lib ev t)) [] (map hd rows))"
          by (rule analyze_tables_readable)
        with x obtain s where "x = Inr s" by simp
        with x None Inr True e show ?thesis
          by (simp add: analyze_schema_body_def bind_def sqlite3_connect_def cursor_execute_def
              emit_def lift_def map_py_index_0 conn_close_def w2_def)
      qed
    qed
  qed
qed

lemma analyze_schema_result:
  "fst (analyze_schema lib ev w) =
     Inr (if store_readable lib ev
          then dict_of (map (\<lambda>r. (hd r, reported lib ev (hd r))) (projr (db_execute ev tables_sql)))
          else [])"
proof (cases "store_readable lib ev")
  case True
  then obtain rows where rows: "db_execute ev tables_sql = Inr rows"
    by (cases "db_execute ev tables_sql") (simp_all add: store_readable_def)
  from True rows have "fst (analyze_schema_body lib ev w) =
         Inr (dict_of (map (\<lambda>t. (t, reported lib ev t)) (map hd rows)))"
    by (rule analyze_schema_body_readable)
  with True rows show ?thesis by (simp add: analyze_schema_cases comp_def)
next
  case False
  then have "isl (fst (analyze_schema_body lib ev w))" by (rule analyze_schema_body_unreadable)
  with False show ?thesis
    by (cases "fst (analyze_schema_body lib ev w)") (simp_all add: analyze_schema_cases)
qed


text \<open>The conditions on the store, written out.\<close>

lemma table_readable_iff:
  "table_readable lib ev t \<longleftrightarrow>
     \<not> isl (db_execute ev (table_info_sql lib t)) \<and>
     (\<forall>c \<in> set (projr (db_execute ev (table_info_sql lib t))). 3 < length c) \<and>
     \<not> isl (db_execute ev (sample_sql lib t))"
  by (cases "db_execute ev (table_info_sql lib t)")
    (simp_all add: table_readable_def list_all_iff)

lemma store_readable_iff:
  "store_readable lib ev \<longleftrightarrow>
     db_connect ev = None \<and> \<not> isl (db_execute ev tables_sql) \<and>
     (\<forall>r \<in> set (projr (db_execute ev tables_sql)).
        r \<noteq> [] \<and> \<not> isl (db_execute ev (table_info_sql lib (hd r))) \<and>
        (\<forall>c \<in> set (projr (db_execute ev (table_info_sql lib (hd r)))). 3 < length c) \<and>
        \<not> isl (db_execute ev (sample_sql lib (hd r)))) \<and>
     db_close ev = None"
  by (cases "db_execute ev tables_sql")
    (auto simp: store_readable_def table_readable_iff list_all_iff)

lemma dict_set_list_all:
  "list_all P d \<Longrightarrow> P (k, v) \<Longrightarrow> list_all P (dict_set d k v)"
  by (induction d) auto

lemma dict_of_sample_le:
  "list_all (\<lambda>ti. length (sample_data (snd ti)) \<le> 3)
     (dict_of (map (\<lambda>r. (hd r, reported lib ev (hd r))) rows))"
proof -
  have "list_all (\<lambda>ti. length (sample_data (snd ti)) \<le> 3)
     (foldl (\<lambda>d (k, v). dict_set d k v) sch (map (\<lambda>r. (hd r, reported lib ev (hd r))) rows))"
    if "list_all (\<lambda>ti. length (sample_data (snd ti)) \<le> 3) sch" for sch
    using that
  proof (induction rows arbitrary: sch)
    case Nil
    then show ?case by simp
  next
    case (Cons r rows)
    have "list_all (\<lambda>ti. length (sample_data (snd ti)) \<le> 3)
            (dict_set sch (hd r) (reported lib ev (hd r)))"
      using Cons.prems by (intro dict_set_list_all) (simp_all add: reported_def)
    from Cons.IH [OF this] show ?case by simp
  qed
  from this [of "[]"] show ?thesis by (simp add: dict_of_def)
qed

text \<open>
  C6. \<open>analyze_schema\<close> returns a schema and never raises, and no table of the schema
  holds more than three sample rows. When the store opens and closes, the catalog
  query answers, every row of the catalog has a field, and for every table of the
  catalog both queries answer and every metadata row has its four fields, the schema
  is the dict built from every table of the catalog: each table with the columns of
  \<^verbatim>\<open>PRAGMA table_info\<close> in the order of its rows, each with its name, declared type and
  nullability, and with the first three rows of the sample query; when the catalog
  names no table twice these are the entries of the schema, in the order of the
  catalog. The schema is empty when the connection fails, when the catalog query
  fails, when closing the connection fails, and when for one row of the catalog the
  row has no field, the metadata query fails, a metadata row has fewer than four
  fields, or the sample query fails. The three queries are the texts of the source.
\<close>

theorem analyze_schema_fails_soft:
  "(let info = (\<lambda>t. \<lparr>table_columns =
                        map (\<lambda>c. \<lparr>col_name = c ! 1, col_type = c ! 2,
                                   nullable = (\<not> truthy (c ! 3))\<rparr>)
                          (projr (db_execute ev (table_info_sql lib t))),
                      sample_data = take 3 (projr (db_execute ev (sample_sql lib t)))\<rparr>);
        answer = fst (analyze_schema lib ev w)
    in (\<exists>s. answer = Inr s \<and> list_all (\<lambda>ti. length (sample_data (snd ti)) \<le> 3) s) \<and>
       (db_connect ev = None \<and> db_execute ev tables_sql = Inr rows \<and>
        list_all (\<lambda>r. r \<noteq> [] \<and>
                      \<not> isl (db_execute ev (table_info_sql lib (hd r))) \<and>
                      list_all (\<lambda>c. 3 < length c)
                        (projr (db_execute ev (table_info_sql lib (hd r)))) \<and>
                      \<not> isl (db_execute ev (sample_sql lib (hd r)))) rows \<and>
        db_close ev = None \<longrightarrow>
          answer = Inr (dict_of (map (\<lambda>r. (hd r, info (hd r))) rows)) \<and>
          (distinct (map hd rows) \<longrightarrow> answer = Inr (map (\<lambda>r. (hd r, info (hd r))) rows))) \<and>
       (db_connect ev \<noteq> None \<longrightarrow> answer = Inr []) \<and>
       (isl (db_execute ev tables_sql) \<longrightarrow> answer = Inr []) \<and>
       (db_close ev \<noteq> None \<longrightarrow> answer = Inr []) \<and>
       (db_execute ev tables_sql = Inr rows \<and> r \<in> set rows \<and>
        (r = [] \<or> isl (db_execute ev (table_info_sql lib (hd r))) \<or>
         (\<exists>c \<in> set (projr (db_execute ev (table_info_sql lib (hd r)))). length c \<le> 3) \<or>
         isl (db_execute ev (sample_sql lib (hd r)))) \<longrightarrow> answer = Inr [])) \<and>
   tables_sql = ''SELECT name FROM sqlite_master WHERE type='table';'' \<and>
   table_info_sql lib (SStr n) = ''PRAGMA table_info('' @ n @ '')'' \<and>
   sample_sql lib (SStr n) = ''SELECT * FROM '' @ n @ '' LIMIT 5''"
proof -
  let ?info = "\<lambda>t. \<lparr>table_columns =
                        map (\<lambda>c. \<lparr>col_name = c ! 1, col_type = c ! 2,
                                   nullable = (\<not> truthy (c ! 3))\<rparr>)
                          (projr (db_execute ev (table_info_sql lib t))),
                      sample_data = take 3 (projr (db_execute ev (sample_sql lib t)))\<rparr>"
  let ?answer = "fst (analyze_schema lib ev w)"
  have info: "?info t = reported lib ev t" for t by (simp add: reported_def)
  have soft: "?answer = Inr []" if "\<not> store_readable lib ev"
    using that by (simp add: analyze_schema_result)
  have never: "\<exists>s. ?answer = Inr s \<and> list_all (\<lambda>ti. length (sample_data (snd ti)) \<le> 3) s"
    by (simp add: analyze_schema_result dict_of_sample_le)
  have all: "db_connect ev = None \<and> db_execute ev tables_sql = Inr rows \<and>
        list_all (\<lambda>r. r \<noteq> [] \<and>
                      \<not> isl (db_execute ev (table_info_sql lib (hd r))) \<and>
                      list_all (\<lambda>c. 3 < length c)
                        (projr (db_execute ev (table_info_sql lib (hd r)))) \<and>
                      \<not> isl (db_execute ev (sample_sql lib (hd r)))) rows \<and>
        db_close ev = None \<longrightarrow>
          ?answer = Inr (dict_of (map (\<lambda>r. (hd r, ?info (hd r))) rows)) \<and>
          (distinct (map hd rows) \<longrightarrow> ?answer = Inr (map (\<lambda>r. (hd r, ?info (hd r))) rows))"
  proof
    assume h: "db_connect ev = None \<and> db_execute ev tables_sql = Inr rows \<and>
        list_all (\<lambda>r. r \<noteq> [] \<and>
                      \<not> isl (db_execute ev (table_info_sql lib (hd r))) \<and>
                      list_all (\<lambda>c. 3 < length c)
                        (projr (db_execute ev (table_info_sql lib (hd r)))) \<and>
                      \<not> isl (db_execute ev (sample_sql lib (hd r)))) rows \<and>
        db_close ev = None"
    then have "store_readable lib ev" by (simp add: store_readable_iff list_all_iff)
    with h have a: "?answer = Inr (dict_of (map (\<lambda>r. (hd r, ?info (hd r))) rows))"
      unfolding info by (simp add: analyze_schema_result)
    have "dict_of (map (\<lambda>r. (hd r, ?info (hd r))) rows) = map (\<lambda>r. (hd r, ?info (hd r))) rows"
      if "distinct (map hd rows)"
      using that by (intro dict_of_distinct) (simp add: comp_def)
    with a show "?answer = Inr (dict_of (map (\<lambda>r. (hd r, ?info (hd r))) rows)) \<and>
          (distinct (map hd rows) \<longrightarrow> ?answer = Inr (map (\<lambda>r. (hd r, ?info (hd r))) rows))"
      by simp
  qed
  have c1: "db_connect ev \<noteq> None \<longrightarrow> ?answer = Inr []"
    by (intro impI soft) (simp add: store_readable_iff)
  have c2: "isl (db_execute ev tables_sql) \<longrightarrow> ?answer = Inr []"
    by (intro impI soft) (simp add: store_readable_iff)
  have c3: "db_close ev \<noteq> None \<longrightarrow> ?answer = Inr []"
    by (intro impI soft) (simp add: store_readable_iff)
  have c4: "db_execute ev tables_sql = Inr rows \<and> r \<in> set rows \<and>
        (r = [] \<or> isl (db_execute ev (table_info_sql lib (hd r))) \<or>
         (\<exists>c \<in> set (projr (db_execute ev (table_info_sql lib (hd r)))). length c \<le> 3) \<or>
         isl (db_execute ev (sample_sql lib (hd r)))) \<longrightarrow> ?answer = Inr []"
  proof (intro impI soft)
    assume "db_execute ev tables_sql = Inr rows \<and> r \<in> set rows \<and>
        (r = [] \<or> isl (db_execute ev (table_info_sql lib (hd r))) \<or>
         (\<exists>c \<in> set (projr (db_execute ev (table_info_sql lib (hd r)))). length c \<le> 3) \<or>
         isl (db_execute ev (sample_sql lib (hd r))))"
    then show "\<not> store_readable lib ev"
      unfolding store_readable_iff by (auto simp: not_less)
  qed
  have q1: "tables_sql = ''SELECT name FROM sqlite_master WHERE type='table';''"
    by (simp add: tables_sql_def)
  have q2: "table_info_sql lib (SStr n) = ''PRAGMA table_info('' @ n @ '')''"
    by (simp add: table_info_sql_def)
  have q3: "sample_sql lib (SStr n) = ''SELECT * FROM '' @ n @ '' LIMIT 5''"
    by (simp add: sample_sql_def)
  show ?thesis
    unfolding Let_def
    by (rule conjI [OF conjI [OF never conjI [OF all conjI [OF c1 conjI [OF c2 conjI [OF c3 c4]]]]]
          conjI [OF q1 conjI [OF q2 q3]]])
qed

theorem analyze_schema_fails_soft_witness:
  "fst (analyze_schema int_lib env_shop world0) = Inr shop_schema \<and>
   map fst shop_schema = [SStr ''cust_tbl'', SStr ''prod_master''] \<and>
   fst (analyze_schema int_lib env_broken_table world0) = Inr [] \<and>
   fst (analyze_schema int_lib env_unreachable world0) = Inr []"
proof -
  let ?rows = "[[SStr ''cust_tbl''], [SStr ''prod_master'']]"
  have p: "db_connect env_shop = None \<and> db_execute env_shop tables_sql = Inr ?rows \<and>
        list_all (\<lambda>r. r \<noteq> [] \<and>
                      \<not> isl (db_execute env_shop (table_info_sql int_lib (hd r))) \<and>
                      list_all (\<lambda>c. 3 < length c)
                        (projr (db_execute env_shop (table_info_sql int_lib (hd r)))) \<and>
                      \<not> isl (db_execute env_shop (sample_sql int_lib (hd r)))) ?rows \<and>
        db_close env_shop = None"
    by code_simp
  have d: "distinct (map hd ?rows)" by simp
  have m: "map (\<lambda>r. (hd r,
              \<lparr>table_columns =
                 map (\<lambda>c. \<lparr>col_name = c ! 1, col_type = c ! 2, nullable = (\<not> truthy (c ! 3))\<rparr>)
                   (projr (db_execute env_shop (table_info_sql int_lib (hd r)))),
               sample_data = take 3 (projr (db_execute env_shop (sample_sql int_lib (hd r))))\<rparr>))
            ?rows = shop_schema"
    by code_simp
  from analyze_schema_fails_soft [where lib = int_lib and w = world0 and rows = ?rows
      and ev = env_shop, unfolded Let_def, THEN conjunct1, THEN conjunct2, THEN conjunct1,
      THEN mp, OF p, THEN conjunct2, THEN mp, OF d]
  have shop: "fst (analyze_schema int_lib env_shop world0) = Inr shop_schema"
    unfolding m .
  have names: "map fst shop_schema = [SStr ''cust_tbl'', SStr ''prod_master'']" by code_simp
  have b: "db_execute env_broken_table tables_sql = Inr ?rows \<and>
        [SStr ''prod_master''] \<in> set ?rows \<and>
        ([SStr ''prod_master''] = [] \<or>
         isl (db_execute env_broken_table (table_info_sql int_lib (hd [SStr ''prod_master'']))) \<or>
         (\<exists>c \<in> set (projr (db_execute env_broken_table
                   (table_info_sql int_lib (hd [SStr ''prod_master''])))). length c \<le> 3) \<or>
         isl (db_execute env_broken_table (sample_sql int_lib (hd [SStr ''prod_master'']))))"
    by code_simp
  from analyze_schema_fails_soft [where lib = int_lib and w = world0 and rows = ?rows
      and ev = env_broken_table and r = "[SStr ''prod_master'']", unfolded Let_def,
      THEN conjunct1, THEN conjunct2, THEN conjunct2, THEN conjunct2, THEN conjunct2,
      THEN conjunct2, THEN mp, OF b]
  have broken: "fst (analyze_schema int_lib env_broken_table world0) = Inr []" .
  have u: "db_connect env_unreachable \<noteq> None" by (simp add: env_unreachable_def)
  from analyze_schema_fails_soft [where lib = int_lib and w = world0
      and ev = env_unreachable, unfolded Let_def, THEN conjunct1, THEN conjunct2,
      THEN conjunct2, THEN conjunct1, THEN mp, OF u]
  have unreachable: "fst (analyze_schema int_lib env_unreachable world0) = Inr []" .
  from shop names broken unreachable show ?thesis by (intro conjI)
qed

section \<open>The Prompt Composer: the text\<close>

text \<open>
  The text of one table: a header, one entry per column in the order of the schema, and
  the first sample row when there is one. Each entry ends with \<open>backslash_n\<close>.
\<close>

lemma format_table_shape:
  "format_table lib [] (table, info) =
     backslash_n @ ''Table: '' @ py_str lib table @ backslash_n @
     concat (map (\<lambda>col. ''  - '' @ py_str lib (col_name col) @ '' ('' @
                          py_str lib (col_type col) @ '')'' @ backslash_n) (table_columns info)) @
     (if sample_data info \<noteq> []
      then ''  Sample data: '' @ str_tuple lib (hd (sample_data info)) @ backslash_n
      else [])"
proof -
  have "format_column lib [] =
      (\<lambda>col. ''  - '' @ py_str lib (col_name col) @ '' ('' @
               py_str lib (col_type col) @ '')'' @ backslash_n)"
    by (simp add: format_column_def fun_eq_iff)
  then show ?thesis
    by (simp add: format_table_def Let_def foldl_format_column)
qed

text \<open>
  C7. The text rendered for the schema \<open>cust_schema\<close> (one table, two columns, three
  sample rows) holds the header, the two column entries and the first sample row in
  this order, each followed by the two characters backslash and n; it holds no line
  break.
\<close>

theorem format_schema_has_no_line_break:
  "format_schema_for_prompt int_lib cust_schema =
     backslash_n @ ''Table: cust_tbl'' @ backslash_n @
     ''  - id (INTEGER)'' @ backslash_n @
     ''  - nm (VARCHAR(100))'' @ backslash_n @
     ''  Sample data: (1, 'Ann')'' @ backslash_n \<and>
   CHR ''\<newline>'' \<notin> set (format_schema_for_prompt int_lib cust_schema) \<and>
   backslash_n = [CHR 0x5C, CHR ''n'']"
  by code_simp

end
